theory Spec2Isabelle
  imports Main
begin

section \<open>Error codes and statement execution (SqlWrapper.c)\<close>

text \<open>
  The values of \<open>ErrorCode\<close> that the functions of SqlWrapper.c and Geo-Fencing.c return.
\<close>

datatype ErrorCode =
    WORK_SUCCESSFULLY
  | E_MALLOC
  | E_OPEN_FILE
  | E_SQL_OPEN_DATABASE
  | E_SQL_EXECUTE
  | E_SQL_PARSE
  | E_API_PROTOCOL_FORMAT
  | E_INPUT_PARAMETER
  | E_WIFI_INIT_FAIL
  | E_START_THREAD

text \<open>The result status that libpq reports for an executed statement.\<close>

datatype ExecStatusType =
    PGRES_EMPTY_QUERY
  | PGRES_COMMAND_OK
  | PGRES_TUPLES_OK
  | PGRES_BAD_RESPONSE
  | PGRES_NONFATAL_ERROR
  | PGRES_FATAL_ERROR

text \<open>
  A \<open>PGresult\<close>: the status, the number of columns and the rows, every value as the text that
  \<open>PQgetvalue\<close> hands out.
\<close>

record PGresult =
  PQresultStatus :: ExecStatusType
  PQnfields :: nat
  tuples :: "string list list"

definition PQntuples :: "PGresult \<Rightarrow> nat" where
  "PQntuples res = length (tuples res)"

definition command_result :: "ExecStatusType \<Rightarrow> PGresult" where
  "command_result st = \<lparr>PQresultStatus = st, PQnfields = 0, tuples = []\<rparr>"

text \<open>
  A database server is a state \<open>'s\<close> together with the function \<open>PQexec\<close> that runs a
  statement \<open>'q\<close>, sent over the connection with the given handle, on it: it answers with a
  result and leaves the server in a new state. Nothing is assumed about which statements
  fail.
\<close>

type_synonym ('q, 's) PQexec = "nat \<Rightarrow> 'q \<Rightarrow> 's \<Rightarrow> PGresult \<times> 's"

definition SQL_execute :: "('q, 's) PQexec \<Rightarrow> nat \<Rightarrow> 'q \<Rightarrow> 's \<Rightarrow> ErrorCode \<times> 's" where
  "SQL_execute pqexec db_conn sql_statement srv =
     (let (res, srv') = pqexec db_conn sql_statement srv
      in if PQresultStatus res \<noteq> PGRES_COMMAND_OK then (E_SQL_EXECUTE, srv')
         else (WORK_SUCCESSFULLY, srv'))"

text \<open>The three transaction-control statements.\<close>

datatype transaction_sql = BEGIN_TRANSACTION | END_TRANSACTION | ROLLBACK

definition SQL_begin_transaction ::
  "(transaction_sql, 's) PQexec \<Rightarrow> nat \<Rightarrow> 's \<Rightarrow> ErrorCode \<times> 's" where
  "SQL_begin_transaction pqexec db_conn srv =
     (let sql = BEGIN_TRANSACTION;
          (ret_val, srv') = SQL_execute pqexec db_conn sql srv
      in (WORK_SUCCESSFULLY, srv'))"

definition SQL_commit_transaction ::
  "(transaction_sql, 's) PQexec \<Rightarrow> nat \<Rightarrow> 's \<Rightarrow> ErrorCode \<times> 's" where
  "SQL_commit_transaction pqexec db_conn srv =
     (let sql = END_TRANSACTION;
          (ret_val, srv') = SQL_execute pqexec db_conn sql srv
      in (WORK_SUCCESSFULLY, srv'))"

definition SQL_rollback_transaction ::
  "(transaction_sql, 's) PQexec \<Rightarrow> nat \<Rightarrow> 's \<Rightarrow> ErrorCode \<times> 's" where
  "SQL_rollback_transaction pqexec db_conn srv =
     (let sql = ROLLBACK;
          (ret_val, srv') = SQL_execute pqexec db_conn sql srv
      in (WORK_SUCCESSFULLY, srv'))"

text \<open>
  A server that only records what it is sent, each statement with the handle of the
  connection it came over, and answers with the status an oracle picks from the record so
  far and the new statement.
\<close>

definition logging_server ::
  "((nat \<times> 'q) list \<Rightarrow> 'q \<Rightarrow> ExecStatusType) \<Rightarrow> ('q, (nat \<times> 'q) list) PQexec" where
  "logging_server oracle db_conn sql_statement log =
     (command_result (oracle log sql_statement), log @ [(db_conn, sql_statement)])"

section \<open>The connection pool\<close>

text \<open>
  \<open>DBConnectionNode\<close>: the serial id given at creation, the in-use flag (an int, 0 when
  free) and the libpq handle.
\<close>

record DBConnectionNode =
  serial_id :: int
  is_used :: int
  db :: nat

type_synonym DBConnectionList = "DBConnectionNode list"

text \<open>The \<open>list_for_each\<close> scan of \<open>SQL_get_database_connection\<close>, under the pool lock.\<close>

fun scan_for_free ::
  "DBConnectionList \<Rightarrow> ((nat \<times> int) \<times> DBConnectionList) option" where
  "scan_for_free [] = None"
| "scan_for_free (node # rest) =
     (if is_used node = 0
      then Some ((db node, serial_id node), node\<lparr>is_used := 1\<rparr> # rest)
      else (case scan_for_free rest of
              None \<Rightarrow> None
            | Some (r, rest') \<Rightarrow> Some (r, node # rest')))"

text \<open>
  \<open>while(retry_times --)\<close>: the first argument is the number of rounds left, starting from
  \<open>SQL_GET_AVAILABLE_CONNECTION_RETRIES\<close> (a constant of a header outside the two
  source files, so a parameter here). \<open>Inr (db, serial_id)\<close> is the return of
  \<open>WORK_SUCCESSFULLY\<close> with the two out-parameters written; \<open>Inl e\<close> is the return of \<open>e\<close>,
  the out-parameters left as they were.
\<close>

fun SQL_get_database_connection ::
  "nat \<Rightarrow> DBConnectionList \<Rightarrow> (ErrorCode + nat \<times> int) \<times> DBConnectionList" where
  "SQL_get_database_connection 0 pool = (Inl E_SQL_OPEN_DATABASE, pool)"
| "SQL_get_database_connection (Suc retry_times) pool =
     (case scan_for_free pool of
        Some (r, pool') \<Rightarrow> (Inr r, pool')
      | None \<Rightarrow> SQL_get_database_connection retry_times pool)"

fun SQL_release_database_connection ::
  "DBConnectionList \<Rightarrow> int \<Rightarrow> ErrorCode \<times> DBConnectionList" where
  "SQL_release_database_connection [] sid = (E_SQL_OPEN_DATABASE, [])"
| "SQL_release_database_connection (node # rest) sid =
     (if serial_id node = sid
      then (WORK_SUCCESSFULLY, node\<lparr>is_used := 0\<rparr> # rest)
      else (let (e, rest') = SQL_release_database_connection rest sid
            in (e, node # rest')))"

definition in_use_count :: "DBConnectionList \<Rightarrow> nat" where
  "in_use_count pool = length (filter (\<lambda>n. is_used n \<noteq> 0) pool)"

definition free_count :: "DBConnectionList \<Rightarrow> nat" where
  "free_count pool = length (filter (\<lambda>n. is_used n = 0) pool)"

section \<open>C library functions used by the parsers\<close>

definition isspace :: "char \<Rightarrow> bool" where
  "isspace c \<longleftrightarrow> c = CHR '' '' \<or> (9 \<le> (of_char c :: nat) \<and> (of_char c :: nat) \<le> 13)"

definition isdigit :: "char \<Rightarrow> bool" where
  "isdigit c \<longleftrightarrow> 48 \<le> (of_char c :: nat) \<and> (of_char c :: nat) \<le> 57"

definition digit_value :: "char \<Rightarrow> nat" where
  "digit_value c = of_char c - 48"

text \<open>The digits at the front of a string, read as a decimal number onto an accumulator.\<close>

fun leading_digits_value :: "nat \<Rightarrow> string \<Rightarrow> nat" where
  "leading_digits_value acc [] = acc"
| "leading_digits_value acc (c # cs) =
     (if isdigit c then leading_digits_value (10 * acc + digit_value c) cs else acc)"

text \<open>
  \<open>atoi\<close>: white space is skipped, one sign is read, then the digits up to the first other
  character; no digits give 0. The value is an unbounded integer here: C leaves \<open>atoi\<close>
  undefined when the number does not fit an \<open>int\<close>.
\<close>

definition atoi :: "string \<Rightarrow> int" where
  "atoi s =
     (case dropWhile isspace s of
        [] \<Rightarrow> 0
      | c # cs \<Rightarrow>
          if c = CHR ''-'' then - int (leading_digits_value 0 cs)
          else if c = CHR ''+'' then int (leading_digits_value 0 cs)
          else int (leading_digits_value 0 (c # cs)))"

text \<open>
  The values of a C \<open>int\<close> of 32 bits. Where a caller of \<open>atoi\<close> depends on the value
  beyond them, its behaviour is undefined.
\<close>

definition representable_int :: "int \<Rightarrow> bool" where
  "representable_int i \<longleftrightarrow> - 2147483648 \<le> i \<and> i \<le> 2147483647"

text \<open>
  The number that a string of decimal digits denotes: the digit at position \<open>i\<close> counts
  with the power of ten of its place.
\<close>

definition decimal_value :: "string \<Rightarrow> nat" where
  "decimal_value s = (\<Sum>i<length s. digit_value (s ! i) * 10 ^ (length s - 1 - i))"

text \<open>What \<open>printf\<close> writes for \<open>%d\<close>.\<close>

fun string_of_nat :: "nat \<Rightarrow> string" where
  "string_of_nat n =
     (if n < 10 then [char_of (48 + n)]
      else string_of_nat (n div 10) @ [char_of (48 + n mod 10)])"

definition string_of_int :: "int \<Rightarrow> string" where
  "string_of_int i = (if i < 0 then CHR ''-'' # string_of_nat (nat (- i)) else string_of_nat (nat i))"

text \<open>
  The arrays \<open>temp_buf\<close>, \<open>sql\<close> and \<open>one_record\<close> have sizes that constants outside the
  two source files set; the messages and statements are taken to fit them.

  \<open>strtok_save\<close> is defined outside the two source files. A message
  buffer is therefore given as the values that the successive calls of \<open>strtok_save\<close> on it
  return, \<open>None\<close> for \<open>NULL\<close>; once they are used up every further call returns \<open>NULL\<close>.
\<close>

type_synonym tokens = "string option list"

fun strtok_save :: "tokens \<Rightarrow> string option \<times> tokens" where
  "strtok_save [] = (None, [])"
| "strtok_save (t # ts) = (t, ts)"

declare string_of_nat.simps [simp del]

section \<open>The summarizer: \<open>SQL_summarize_object_location\<close>\<close>

text \<open>
  The four statements of the summarizer, each with the arguments that \<open>sprintf\<close> puts into
  its template.
\<close>

datatype summarize_sql =
    Reset_state
  | Update_stable_tag int int int int int
  | Update_moving_tag int int
  | Update_tag_base_location int int int int

definition SQL_summarize_object_location ::
  "nat \<Rightarrow> (summarize_sql, 's) PQexec \<Rightarrow> int \<Rightarrow> int \<Rightarrow> int \<Rightarrow> int \<Rightarrow>
   DBConnectionList \<times> 's \<Rightarrow> ErrorCode \<times> DBConnectionList \<times> 's" where
  "SQL_summarize_object_location retries pqexec
       database_pre_filter_time_window_in_sec time_interval_in_sec
       rssi_difference_of_location_accuracy_tolerance base_location_tolerance_in_millimeter
       st =
     (case st of (pool, srv) \<Rightarrow>
      case SQL_get_database_connection retries pool of
        (Inl e, pool1) \<Rightarrow> (E_SQL_OPEN_DATABASE, pool1, srv)
      | (Inr (db_conn, db_serial_id), pool1) \<Rightarrow>
          let (ret_val, srv1) = SQL_execute pqexec db_conn Reset_state srv;
              (ret_val, srv2) = SQL_execute pqexec db_conn
                 (Update_stable_tag database_pre_filter_time_window_in_sec time_interval_in_sec
                    database_pre_filter_time_window_in_sec time_interval_in_sec
                    rssi_difference_of_location_accuracy_tolerance) srv1
          in if ret_val \<noteq> WORK_SUCCESSFULLY
             then (E_SQL_EXECUTE, snd (SQL_release_database_connection pool1 db_serial_id), srv2)
             else
               let (ret_val, srv3) = SQL_execute pqexec db_conn
                      (Update_moving_tag database_pre_filter_time_window_in_sec
                         time_interval_in_sec) srv2
               in if ret_val \<noteq> WORK_SUCCESSFULLY
                  then (E_SQL_EXECUTE,
                        snd (SQL_release_database_connection pool1 db_serial_id), srv3)
                  else
                    let (ret_val, srv4) = SQL_execute pqexec db_conn
                           (Update_tag_base_location database_pre_filter_time_window_in_sec
                              time_interval_in_sec base_location_tolerance_in_millimeter
                              base_location_tolerance_in_millimeter) srv3
                    in if ret_val \<noteq> WORK_SUCCESSFULLY
                       then (E_SQL_EXECUTE,
                             snd (SQL_release_database_connection pool1 db_serial_id), srv4)
                       else (WORK_SUCCESSFULLY,
                             snd (SQL_release_database_connection pool1 db_serial_id), srv4))"

section \<open>Beacon registration: \<open>SQL_update_lbeacon_registration_status\<close>\<close>

text \<open>
  The upsert into \<open>lbeacon_table\<close> with the arguments of its template: uuid, beacon address,
  health status, gateway address, registration time as sent, and the two coordinates.
\<close>

datatype registration_sql =
  Upsert_lbeacon string string int string string int int

text \<open>
  Modelled from the spec: \<open>S_NORMAL_STATUS\<close> is an enumerator of a header outside the
  two source files; the registration scenario of the spec stores \<open>health_status=0\<close>.
\<close>

definition S_NORMAL_STATUS :: int where
  "S_NORMAL_STATUS = 0"

definition INDEX_OF_COORDINATE_X_IN_UUID :: nat where
  "INDEX_OF_COORDINATE_X_IN_UUID = 12"

definition INDEX_OF_COORDINATE_Y_IN_UUID :: nat where
  "INDEX_OF_COORDINATE_Y_IN_UUID = 24"

definition LENGTH_OF_COORDINATE_IN_UUID :: nat where
  "LENGTH_OF_COORDINATE_IN_UUID = 8"

text \<open>
  \<open>strncpy(dst, &str[from], n)\<close> into a zeroed buffer, where \<open>str\<close> is a string in a zeroed
  array: at most \<open>n\<close> characters from position \<open>from\<close>, none when the string ends before.
\<close>

definition strncpy_from :: "string \<Rightarrow> nat \<Rightarrow> nat \<Rightarrow> string" where
  "strncpy_from str from n = take n (drop from str)"

text \<open>
  The loop \<open>while(numbers--)\<close> of the registration, for a positive \<open>numbers\<close>. The result
  \<open>None\<close> stands for undefined behaviour: a \<open>NULL\<close> token handed to \<open>strcpy\<close> or \<open>strlen\<close>,
  or a uuid that does not fit \<open>str_uuid\<close>, an array of \<open>LENGTH_OF_UUID\<close> characters (the
  constant is defined in a header outside the two source files, so it is the first
  parameter). The caller releases the connection when the loop returns, with an error or
  without.
\<close>

fun register_lbeacons ::
  "nat \<Rightarrow> (registration_sql, 's) PQexec \<Rightarrow> nat \<Rightarrow> string \<Rightarrow> nat \<Rightarrow> tokens \<Rightarrow> 's \<Rightarrow>
   (ErrorCode \<times> 's) option" where
  "register_lbeacons LENGTH_OF_UUID pqexec db_conn gateway_ip_address 0 toks srv =
     Some (WORK_SUCCESSFULLY, srv)"
| "register_lbeacons LENGTH_OF_UUID pqexec db_conn gateway_ip_address (Suc numbers) toks srv =
     (let (uuid, toks1) = strtok_save toks
      in case uuid of
           None \<Rightarrow> None
         | Some uuid \<Rightarrow>
             if LENGTH_OF_UUID \<le> length uuid \<or> LENGTH_OF_UUID \<le> INDEX_OF_COORDINATE_Y_IN_UUID
             then None
             else
               let str_uuid = uuid;
                   coordinate_x = strncpy_from str_uuid INDEX_OF_COORDINATE_X_IN_UUID
                                    LENGTH_OF_COORDINATE_IN_UUID;
                   coordinate_y = strncpy_from str_uuid INDEX_OF_COORDINATE_Y_IN_UUID
                                    LENGTH_OF_COORDINATE_IN_UUID;
                   int_coordinate_x = atoi coordinate_x;
                   int_coordinate_y = atoi coordinate_y;
                   (registered_timestamp_GMT, toks2) = strtok_save toks1;
                   (lbeacon_ip, toks3) = strtok_save toks2
               in case (lbeacon_ip, registered_timestamp_GMT) of
                    (Some lbeacon_ip, Some registered_timestamp_GMT) \<Rightarrow>
                      let (ret_val, srv') = SQL_execute pqexec db_conn
                             (Upsert_lbeacon uuid lbeacon_ip S_NORMAL_STATUS gateway_ip_address
                                registered_timestamp_GMT int_coordinate_x int_coordinate_y) srv
                      in if ret_val \<noteq> WORK_SUCCESSFULLY then Some (E_SQL_EXECUTE, srv')
                         else register_lbeacons LENGTH_OF_UUID pqexec db_conn
                                gateway_ip_address numbers toks3 srv'
                  | _ \<Rightarrow> None)"

definition SQL_update_lbeacon_registration_status ::
  "nat \<Rightarrow> nat \<Rightarrow> (registration_sql, 's) PQexec \<Rightarrow> tokens \<Rightarrow> string \<Rightarrow>
   DBConnectionList \<times> 's \<Rightarrow> (ErrorCode \<times> DBConnectionList \<times> 's) option" where
  "SQL_update_lbeacon_registration_status retries LENGTH_OF_UUID pqexec buf gateway_ip_address st =
     (case st of (pool, srv) \<Rightarrow>
      let (numbers_str, toks1) = strtok_save buf
      in case numbers_str of
           None \<Rightarrow> Some (E_API_PROTOCOL_FORMAT, pool, srv)
         | Some numbers_str \<Rightarrow>
             let numbers = atoi numbers_str
             in if numbers \<le> 0 then Some (E_SQL_PARSE, pool, srv)
                else
                  let (not_used_gateway_ip, toks2) = strtok_save toks1
                  in case SQL_get_database_connection retries pool of
                       (Inl e, pool1) \<Rightarrow> Some (E_SQL_OPEN_DATABASE, pool1, srv)
                     | (Inr (db_conn, db_serial_id), pool1) \<Rightarrow>
                         (case register_lbeacons LENGTH_OF_UUID pqexec db_conn
                                 gateway_ip_address (nat numbers) toks2 srv of
                            None \<Rightarrow> None
                          | Some (e, srv') \<Rightarrow>
                              Some (e, snd (SQL_release_database_connection pool1 db_serial_id),
                                    srv')))"

text \<open>
  \<open>lbeacon_table\<close>, keyed by uuid: \<open>ON CONFLICT (uuid)\<close> needs the unique index on that
  column, so the table holds at most one row for a uuid. Timestamps are microseconds since
  the epoch, the resolution of PostgreSQL.
\<close>

type_synonym timestamp = int

record lbeacon_row =
  lb_ip_address :: string
  lb_health_status :: int
  lb_gateway_ip_address :: string
  lb_registered_timestamp :: string
  lb_last_report_timestamp :: timestamp
  lb_coordinate_x :: int
  lb_coordinate_y :: int

type_synonym lbeacon_table = "string \<rightharpoonup> lbeacon_row"

text \<open>
  \<open>INSERT ... ON CONFLICT (uuid) DO UPDATE SET ...\<close>, run when \<open>NOW()\<close> is \<open>now\<close>: a new
  row takes every column from the statement; an existing one keeps its
  \<open>registered_timestamp\<close>.
\<close>

fun upsert_lbeacon :: "timestamp \<Rightarrow> registration_sql \<Rightarrow> lbeacon_table \<Rightarrow> lbeacon_table" where
  "upsert_lbeacon now (Upsert_lbeacon uuid ip health gateway registered x y) table =
     (case table uuid of
        None \<Rightarrow>
          table(uuid \<mapsto> \<lparr>lb_ip_address = ip, lb_health_status = health,
                          lb_gateway_ip_address = gateway, lb_registered_timestamp = registered,
                          lb_last_report_timestamp = now,
                          lb_coordinate_x = x, lb_coordinate_y = y\<rparr>)
      | Some row \<Rightarrow>
          table(uuid \<mapsto> row\<lparr>lb_ip_address := ip, lb_health_status := health,
                              lb_gateway_ip_address := gateway,
                              lb_last_report_timestamp := now,
                              lb_coordinate_x := x, lb_coordinate_y := y\<rparr>))"

text \<open>
  The server holding \<open>lbeacon_table\<close> at the time \<open>now\<close>: a statement that the oracle
  \<open>accepts\<close> is applied and answered with \<open>PGRES_COMMAND_OK\<close>, any other leaves the table
  as it is and is answered with \<open>PGRES_FATAL_ERROR\<close>.
\<close>

definition lbeacon_server ::
  "(registration_sql \<Rightarrow> lbeacon_table \<Rightarrow> bool) \<Rightarrow> timestamp \<Rightarrow>
   (registration_sql, lbeacon_table) PQexec" where
  "lbeacon_server accepts now db_conn sql_statement table =
     (if accepts sql_statement table
      then (command_result PGRES_COMMAND_OK, upsert_lbeacon now sql_statement table)
      else (command_result PGRES_FATAL_ERROR, table))"

text \<open>
  The tokens of a registration message after the count and the gateway address: for
  every beacon its uuid, its registration time and its address.
\<close>

definition beacon_tokens :: "(string \<times> string \<times> string) list \<Rightarrow> tokens" where
  "beacon_tokens beacons = concat (map (\<lambda>(uuid, ts, ip). [Some uuid, Some ts, Some ip]) beacons)"

text \<open>The statement that the registration sends for one beacon of such a message.\<close>

definition registration_statement :: "string \<Rightarrow> string \<times> string \<times> string \<Rightarrow> registration_sql" where
  "registration_statement gateway_ip_address b =
     (case b of (uuid, ts, ip) \<Rightarrow>
        Upsert_lbeacon uuid ip S_NORMAL_STATUS gateway_ip_address ts
          (atoi (strncpy_from uuid INDEX_OF_COORDINATE_X_IN_UUID LENGTH_OF_COORDINATE_IN_UUID))
          (atoi (strncpy_from uuid INDEX_OF_COORDINATE_Y_IN_UUID LENGTH_OF_COORDINATE_IN_UUID)))"

fun statement_uuid :: "registration_sql \<Rightarrow> string" where
  "statement_uuid (Upsert_lbeacon uuid ip health gateway registered x y) = uuid"

text \<open>The \<open>SET\<close> list of \<open>DO UPDATE\<close>, applied to a row.\<close>

fun updated_row :: "timestamp \<Rightarrow> registration_sql \<Rightarrow> lbeacon_row \<Rightarrow> lbeacon_row" where
  "updated_row now (Upsert_lbeacon uuid ip health gateway registered x y) row =
     row\<lparr>lb_ip_address := ip, lb_health_status := health, lb_gateway_ip_address := gateway,
         lb_last_report_timestamp := now, lb_coordinate_x := x, lb_coordinate_y := y\<rparr>"

section \<open>Tracking reports: \<open>SQL_update_object_tracking_data_with_battery_voltage\<close>\<close>

text \<open>
  Modelled from the spec: the enumerators of \<open>ObjectMonitorType\<close> are declared in a header
  outside the two source files. The spec describes them as independent bits of a
  bitmask, and the sources compare \<open>monitor_type & MONITOR_PANIC\<close> with \<open>MONITOR_PANIC\<close>;
  they are given the first four bits here.
\<close>

type_synonym ObjectMonitorType = int

definition MONITOR_GEO_FENCE :: ObjectMonitorType where
  "MONITOR_GEO_FENCE = 1"

definition MONITOR_PANIC :: ObjectMonitorType where
  "MONITOR_PANIC = 2"

definition MONITOR_MOVEMENT :: ObjectMonitorType where
  "MONITOR_MOVEMENT = 4"

definition MONITOR_LOCATION :: ObjectMonitorType where
  "MONITOR_LOCATION = 8"

text \<open>
  The two statements of the tracking path: the panic stamp (\<open>sql_identify_panic\<close> with the
  mac address and twice the monitor bit) and the bulk insert from a file.
\<close>

datatype tracking_sql =
    Identify_panic string int int
  | Copy_tracking string

text \<open>The files of the server's installation directory: name to lines.\<close>

type_synonym files = "string \<rightharpoonup> string list"

text \<open>
  The block \<open>if(panic_button != NULL && 1 == atoi(panic_button))\<close>. The Boolean of the
  result says whether the block ended in \<open>continue\<close>, which it does when no connection could
  be had. \<open>None\<close> is the \<open>strlen\<close> of a \<open>NULL\<close> mac address.
\<close>

definition identify_panic ::
  "nat \<Rightarrow> (tracking_sql, 's) PQexec \<Rightarrow> string option \<Rightarrow> string option \<Rightarrow>
   DBConnectionList \<times> 's \<Rightarrow> (bool \<times> DBConnectionList \<times> 's) option" where
  "identify_panic retries pqexec object_mac_address panic_button st =
     (case st of (pool, srv) \<Rightarrow>
      case panic_button of
        None \<Rightarrow> Some (False, pool, srv)
      | Some panic \<Rightarrow>
          if 1 = atoi panic
          then (case SQL_get_database_connection retries pool of
                  (Inl e, pool1) \<Rightarrow> Some (True, pool1, srv)
                | (Inr (db_conn, db_serial_id), pool1) \<Rightarrow>
                    (case object_mac_address of
                       None \<Rightarrow> None
                     | Some mac \<Rightarrow>
                         let (ret_val, srv1) = SQL_execute pqexec db_conn
                                (Identify_panic mac MONITOR_PANIC MONITOR_PANIC) srv
                         in Some (False,
                                  snd (SQL_release_database_connection pool1 db_serial_id),
                                  srv1)))
          else Some (False, pool, srv))"

text \<open>
  The line that \<open>fprintf\<close> writes for one record. \<open>None\<close> is a \<open>NULL\<close> handed to \<open>atoi\<close> or
  to \<open>%s\<close>. The first parameter is the text that \<open>gmtime\<close> and \<open>strftime\<close> make of a time.
\<close>

definition csv_line ::
  "(int \<Rightarrow> string) \<Rightarrow> string option \<Rightarrow> string option \<Rightarrow> string option \<Rightarrow> string option \<Rightarrow>
   string option \<Rightarrow> string option \<Rightarrow> string option \<Rightarrow> int \<Rightarrow> string option" where
  "csv_line strftime_gmtime object_mac_address lbeacon_uuid rssi panic_button battery_voltage
       initial_timestamp_GMT final_timestamp_GMT offset =
     (case (initial_timestamp_GMT, final_timestamp_GMT) of
        (Some initial, Some final) \<Rightarrow>
          let buf_initial_time = strftime_gmtime (atoi initial);
              buf_final_time = strftime_gmtime (atoi final)
          in (case (object_mac_address, lbeacon_uuid, rssi, panic_button, battery_voltage) of
                (Some mac, Some uuid, Some rssi, Some panic, Some battery) \<Rightarrow>
                  Some (mac @ '','' @ uuid @ '','' @ rssi @ '','' @ panic @ '','' @ battery @ '',''
                        @ buf_initial_time @ '','' @ buf_final_time @ '',''
                        @ string_of_int offset)
              | _ \<Rightarrow> None)
      | _ \<Rightarrow> None)"

text \<open>
  The loop \<open>while(numbers--)\<close> over the records of one object type. \<open>numbers\<close> is a C int
  and may be negative, so the loop ends only at 0. The state is the pool, the server and
  the lines written to the open file; the result adds the tokens that remain.
\<close>

function track_records ::
  "nat \<Rightarrow> (tracking_sql, 's) PQexec \<Rightarrow> (int \<Rightarrow> string) \<Rightarrow> string option \<Rightarrow> int \<Rightarrow>
   int \<Rightarrow> tokens \<Rightarrow> DBConnectionList \<times> 's \<times> string list \<Rightarrow>
   (tokens \<times> DBConnectionList \<times> 's \<times> string list) option" where
  "track_records retries pqexec strftime_gmtime lbeacon_uuid offset numbers toks st =
     (if numbers = 0 then Some (toks, st)
      else
        case st of (pool, srv, lines) \<Rightarrow>
        case strtok_save toks of (object_mac_address, toks1) \<Rightarrow>
        case strtok_save toks1 of (initial_timestamp_GMT, toks2) \<Rightarrow>
        case strtok_save toks2 of (final_timestamp_GMT, toks3) \<Rightarrow>
        case strtok_save toks3 of (rssi, toks4) \<Rightarrow>
        case strtok_save toks4 of (panic_button, toks5) \<Rightarrow>
        case identify_panic retries pqexec object_mac_address panic_button (pool, srv) of
          None \<Rightarrow> None
        | Some (True, pool1, srv1) \<Rightarrow>
            track_records retries pqexec strftime_gmtime lbeacon_uuid offset
              (numbers - 1) toks5 (pool1, srv1, lines)
        | Some (False, pool1, srv1) \<Rightarrow>
            case strtok_save toks5 of (battery_voltage, toks6) \<Rightarrow>
            case csv_line strftime_gmtime object_mac_address lbeacon_uuid rssi panic_button
                   battery_voltage initial_timestamp_GMT final_timestamp_GMT offset of
              None \<Rightarrow> None
            | Some line \<Rightarrow>
                track_records retries pqexec strftime_gmtime lbeacon_uuid offset
                  (numbers - 1) toks6 (pool1, srv1, lines @ [line]))"
  by pat_completeness auto

lemma strtok_save_Some: "(Some x, t') = strtok_save t \<Longrightarrow> length t' < length t"
  by (cases t) auto

lemma strtok_save_le: "(x, t') = strtok_save t \<Longrightarrow> length t' \<le> length t"
  by (cases t) auto

lemma identify_panic_continue:
  "identify_panic retries pqexec mac panic st = Some (True, st') \<Longrightarrow> panic \<noteq> None"
  by (auto simp: identify_panic_def split: prod.splits option.splits)

lemma csv_line_Some:
  "csv_line f mac uuid rssi panic battery initial final offset = Some l \<Longrightarrow> initial \<noteq> None"
  by (auto simp: csv_line_def split: option.splits)

termination track_records
proof (relation "measure (\<lambda>(r, p, f, u, off, n, toks, st). length toks)", goal_cases)
  case 1
  show ?case by simp
next
  case (2 retries pqexec strftime_gmtime lbeacon_uuid offset numbers toks st x y
        xa ya xb yb xc yc xd yd xe ye xf yf x2 xg yg xh yh)
  from 2 have "identify_panic retries pqexec xb xf (x, xa) = Some (True, yg)" by simp
  then obtain p where "xf = Some p" using identify_panic_continue by fastforce
  with 2 have "length yf < length ye" using strtok_save_Some by metis
  moreover have "length ye \<le> length yd" "length yd \<le> length yc" "length yc \<le> length yb"
    "length yb \<le> length toks" using 2 strtok_save_le by metis+
  ultimately show ?case by simp
next
  case (3 retries pqexec strftime_gmtime lbeacon_uuid offset numbers toks st x y
        xa ya xb yb xc yc xd yd xe ye xf yf x2 xg yg xh yh xi yi x2a)
  from 3 obtain i where "xc = Some i" using csv_line_Some by fastforce
  with 3 have "length yc < length yb" using strtok_save_Some by metis
  moreover have "length yi \<le> length yf" "length yf \<le> length ye" "length ye \<le> length yd"
    "length yd \<le> length yc" "length yb \<le> length toks" using 3 strtok_save_le by metis+
  ultimately show ?case by simp
qed

declare track_records.simps [simp del]

text \<open>
  The loop \<open>while(num_types --)\<close> over the object types, two of them. \<open>Inl\<close> is the early
  return of \<open>E_API_PROTOCOL_FORMAT\<close> for a missing object number, after \<open>fclose\<close>.
\<close>

fun track_types ::
  "nat \<Rightarrow> (tracking_sql, 's) PQexec \<Rightarrow> (int \<Rightarrow> string) \<Rightarrow> string option \<Rightarrow> int \<Rightarrow>
   nat \<Rightarrow> tokens \<Rightarrow> DBConnectionList \<times> 's \<times> string list \<Rightarrow>
   (ErrorCode \<times> DBConnectionList \<times> 's \<times> string list) option" where
  "track_types retries pqexec strftime_gmtime lbeacon_uuid offset 0 toks st =
     Some (WORK_SUCCESSFULLY, st)"
| "track_types retries pqexec strftime_gmtime lbeacon_uuid offset (Suc num_types) toks st =
     (case strtok_save toks of (object_type, toks1) \<Rightarrow>
      case strtok_save toks1 of (object_number, toks2) \<Rightarrow>
      case object_number of
        None \<Rightarrow> Some (E_API_PROTOCOL_FORMAT, st)
      | Some object_number \<Rightarrow>
          (case track_records retries pqexec strftime_gmtime lbeacon_uuid offset
                  (atoi object_number) toks2 st of
             None \<Rightarrow> None
           | Some (toks3, st') \<Rightarrow>
               track_types retries pqexec strftime_gmtime lbeacon_uuid offset num_types
                 toks3 st'))"

text \<open>
  The function itself. Beside the arguments of the C function it is given what the C
  function reads from its environment: whether \<open>fopen\<close> succeeds, the rendering of times,
  the system time and the thread id. \<open>fopen\<close> with mode \<open>wt\<close> leaves an empty file of that
  name, \<open>fclose\<close> leaves it with the lines written, \<open>remove\<close> deletes it.
\<close>

definition SQL_update_object_tracking_data_with_battery_voltage ::
  "nat \<Rightarrow> (tracking_sql, 's) PQexec \<Rightarrow> bool \<Rightarrow> (int \<Rightarrow> string) \<Rightarrow> int \<Rightarrow> int \<Rightarrow>
   tokens \<Rightarrow> string \<Rightarrow> int \<Rightarrow> DBConnectionList \<times> 's \<times> files \<Rightarrow>
   (ErrorCode \<times> DBConnectionList \<times> 's \<times> files) option" where
  "SQL_update_object_tracking_data_with_battery_voltage retries pqexec fopen_succeeds
       strftime_gmtime current_time thread_id buf server_installation_path
       is_enabled_panic_monitoring st =
     (case st of (pool, srv, fs) \<Rightarrow>
      let num_types = 2;
          filename = server_installation_path @ ''/temp/track_'' @ string_of_int thread_id
      in if \<not> fopen_succeeds then Some (E_OPEN_FILE, pool, srv, fs)
         else
           case strtok_save buf of (lbeacon_uuid, toks1) \<Rightarrow>
           case strtok_save toks1 of (lbeacon_timestamp, toks2) \<Rightarrow>
           case lbeacon_timestamp of
             None \<Rightarrow> Some (E_API_PROTOCOL_FORMAT, pool, srv, fs(filename \<mapsto> []))
           | Some lbeacon_timestamp \<Rightarrow>
               let lbeacon_timestamp_value = atoi lbeacon_timestamp
               in case strtok_save toks2 of (lbeacon_ip, toks3) \<Rightarrow>
                  case track_types retries pqexec strftime_gmtime lbeacon_uuid
                         (current_time - lbeacon_timestamp_value) num_types toks3
                         (pool, srv, []) of
                    None \<Rightarrow> None
                  | Some (e, pool1, srv1, lines) \<Rightarrow>
                      if e \<noteq> WORK_SUCCESSFULLY
                      then Some (e, pool1, srv1, fs(filename \<mapsto> lines))
                      else
                        case SQL_get_database_connection retries pool1 of
                          (Inl e, pool2) \<Rightarrow>
                            Some (E_SQL_OPEN_DATABASE, pool2, srv1, fs(filename \<mapsto> lines))
                        | (Inr (db_conn, db_serial_id), pool2) \<Rightarrow>
                            let (ret_val, srv2) =
                                  SQL_execute pqexec db_conn (Copy_tracking filename) srv1;
                                pool3 = snd (SQL_release_database_connection pool2 db_serial_id);
                                fs' = (fs(filename \<mapsto> lines))(filename := None)
                            in if ret_val \<noteq> WORK_SUCCESSFULLY
                               then Some (E_SQL_EXECUTE, pool3, srv2, fs')
                               else Some (WORK_SUCCESSFULLY, pool3, srv2, fs'))"

section \<open>Violation events: \<open>SQL_collect_violation_events\<close>\<close>

text \<open>
  The columns of \<open>object_summary_table\<close> and \<open>notification_table\<close> that the statements
  read and write. The tables are created outside the two source files, so every column but
  the serial \<open>id\<close> and the flag \<open>processed\<close> may hold \<open>NULL\<close>, written \<open>None\<close>.
\<close>

record object_summary_row =
  os_mac_address :: "string option"
  os_uuid :: "string option"
  os_geofence_violation_timestamp :: "timestamp option"
  os_panic_violation_timestamp :: "timestamp option"
  os_movement_violation_timestamp :: "timestamp option"
  os_location_violation_timestamp :: "timestamp option"

record notification_row =
  n_id :: int
  n_monitor_type :: "int option"
  n_mac_address :: "string option"
  n_uuid :: "string option"
  n_violation_timestamp :: "timestamp option"
  n_processed :: int

record violation_db =
  object_summary_table :: "object_summary_row list"
  notification_table :: "notification_row list"
  notification_id_seq :: int

datatype violation_column =
    geofence_violation_timestamp
  | panic_violation_timestamp
  | movement_violation_timestamp
  | location_violation_timestamp

fun column_value :: "violation_column \<Rightarrow> object_summary_row \<Rightarrow> timestamp option" where
  "column_value geofence_violation_timestamp s = os_geofence_violation_timestamp s"
| "column_value panic_violation_timestamp s = os_panic_violation_timestamp s"
| "column_value movement_violation_timestamp s = os_movement_violation_timestamp s"
| "column_value location_violation_timestamp s = os_location_violation_timestamp s"

text \<open>
  \<open>sql_insert_template\<close> with the seven arguments of its \<open>sprintf\<close>, in their order: the
  monitor type and the column of the select list, the column and the seconds of the time
  condition, then the monitor type, the column and the seconds of the sub-query.
\<close>

datatype violation_sql =
  Insert_notifications int violation_column violation_column int int violation_column int

text \<open>A comparison of SQL is true only between two values that are not \<open>NULL\<close>.\<close>

definition sql_eq :: "'a option \<Rightarrow> 'a option \<Rightarrow> bool" where
  "sql_eq a b = (case (a, b) of (Some x, Some y) \<Rightarrow> x = y | _ \<Rightarrow> False)"

text \<open>
  The condition of the sub-query on a row \<open>n\<close> of \<open>notification_table\<close>, for the row \<open>s\<close> of
  \<open>object_summary_table\<close> that the outer query is at. Inside the sub-query the names
  \<open>mac_address\<close> and \<open>uuid\<close> are columns of \<open>notification_table\<close> on both sides of \<open>=\<close>;
  the violation column is no column of \<open>notification_table\<close> and is read from \<open>s\<close>.
  \<open>EXTRACT(EPOCH FROM ...)\<close> is in seconds, the timestamps in microseconds.
\<close>

definition recent_notification ::
  "int \<Rightarrow> violation_column \<Rightarrow> int \<Rightarrow> object_summary_row \<Rightarrow> notification_row \<Rightarrow> bool" where
  "recent_notification monitor_type column granularity s n \<longleftrightarrow>
     sql_eq (n_monitor_type n) (Some monitor_type) \<and>
     sql_eq (n_mac_address n) (n_mac_address n) \<and>
     sql_eq (n_uuid n) (n_uuid n) \<and>
     (case (column_value column s, n_violation_timestamp n) of
        (Some t, Some v) \<Rightarrow> t - v < granularity * 1000000
      | _ \<Rightarrow> False)"

text \<open>The \<open>WHERE\<close> clause of the outer query, when \<open>NOW()\<close> is \<open>now\<close>.\<close>

definition violation_selected ::
  "timestamp \<Rightarrow> violation_column \<Rightarrow> int \<Rightarrow> int \<Rightarrow> violation_column \<Rightarrow> int \<Rightarrow>
   notification_row list \<Rightarrow> object_summary_row \<Rightarrow> bool" where
  "violation_selected now column time_interval monitor_type sub_column granularity notifications s
     \<longleftrightarrow>
     (case column_value column s of
        Some t \<Rightarrow> now - time_interval * 1000000 \<le> t
      | None \<Rightarrow> False) \<and>
     \<not> list_ex (recent_notification monitor_type sub_column granularity s) notifications"

text \<open>The rows inserted for the selected rows, with ids from the sequence.\<close>

fun new_notifications ::
  "int \<Rightarrow> int \<Rightarrow> violation_column \<Rightarrow> object_summary_row list \<Rightarrow> notification_row list" where
  "new_notifications seq monitor_type column [] = []"
| "new_notifications seq monitor_type column (s # ss) =
     \<lparr>n_id = seq + 1, n_monitor_type = Some monitor_type,
      n_mac_address = os_mac_address s, n_uuid = os_uuid s,
      n_violation_timestamp = column_value column s, n_processed = 0\<rparr>
     # new_notifications (seq + 1) monitor_type column ss"

fun insert_notifications :: "timestamp \<Rightarrow> violation_sql \<Rightarrow> violation_db \<Rightarrow> violation_db" where
  "insert_notifications now
     (Insert_notifications monitor_type column where_column time_interval
        sub_monitor_type sub_column granularity) d =
     (let selected = filter (violation_selected now where_column time_interval sub_monitor_type
                               sub_column granularity (notification_table d))
                       (object_summary_table d);
          inserted = new_notifications (notification_id_seq d) monitor_type column selected
      in d\<lparr>notification_table := notification_table d @ inserted,
           notification_id_seq := notification_id_seq d + int (length inserted)\<rparr>)"

text \<open>
  The server holding the two tables at the time \<open>now\<close>: a statement that the oracle
  \<open>accepts\<close> is applied, any other fails and changes nothing.
\<close>

definition violation_server ::
  "(violation_sql \<Rightarrow> violation_db \<Rightarrow> bool) \<Rightarrow> timestamp \<Rightarrow> (violation_sql, violation_db) PQexec" where
  "violation_server accepts now db_conn sql_statement d =
     (if accepts sql_statement d
      then (command_result PGRES_COMMAND_OK, insert_notifications now sql_statement d)
      else (command_result PGRES_FATAL_ERROR, d))"

text \<open>The \<open>switch\<close> on the monitor type; \<open>None\<close> is its \<open>default\<close> branch.\<close>

definition violation_timestamp_name :: "ObjectMonitorType \<Rightarrow> violation_column option" where
  "violation_timestamp_name monitor_type =
     (if monitor_type = MONITOR_GEO_FENCE then Some geofence_violation_timestamp
      else if monitor_type = MONITOR_PANIC then Some panic_violation_timestamp
      else if monitor_type = MONITOR_MOVEMENT then Some movement_violation_timestamp
      else if monitor_type = MONITOR_LOCATION then Some location_violation_timestamp
      else None)"

definition SQL_collect_violation_events ::
  "nat \<Rightarrow> (violation_sql, 's) PQexec \<Rightarrow> ObjectMonitorType \<Rightarrow> int \<Rightarrow> int \<Rightarrow>
   DBConnectionList \<times> 's \<Rightarrow> ErrorCode \<times> DBConnectionList \<times> 's" where
  "SQL_collect_violation_events retries pqexec monitor_type time_interval_in_sec
       granularity_for_continuous_violations_in_sec st =
     (case st of (pool, srv) \<Rightarrow>
      case violation_timestamp_name monitor_type of
        None \<Rightarrow> (E_INPUT_PARAMETER, pool, srv)
      | Some name \<Rightarrow>
          (case SQL_get_database_connection retries pool of
             (Inl e, pool1) \<Rightarrow> (E_SQL_OPEN_DATABASE, pool1, srv)
           | (Inr (db_conn, db_serial_id), pool1) \<Rightarrow>
               let (ret_val, srv1) = SQL_execute pqexec db_conn
                      (Insert_notifications monitor_type name name time_interval_in_sec
                         monitor_type name granularity_for_continuous_violations_in_sec) srv
               in if ret_val \<noteq> WORK_SUCCESSFULLY
                  then (E_SQL_EXECUTE,
                        snd (SQL_release_database_connection pool1 db_serial_id), srv1)
                  else (WORK_SUCCESSFULLY,
                        snd (SQL_release_database_connection pool1 db_serial_id), srv1)))"

text \<open>
  Two notifications lie within the dedup window of each other: the same monitor type, mac
  address and uuid, and violation times less than the window apart.
\<close>

definition within_dedup_window :: "int \<Rightarrow> notification_row \<Rightarrow> notification_row \<Rightarrow> bool" where
  "within_dedup_window granularity a b \<longleftrightarrow>
     n_monitor_type a = n_monitor_type b \<and> n_mac_address a = n_mac_address b \<and>
     n_uuid a = n_uuid b \<and>
     (case (n_violation_timestamp a, n_violation_timestamp b) of
        (Some x, Some y) \<Rightarrow> \<bar>x - y\<bar> < granularity * 1000000
      | _ \<Rightarrow> False)"

section \<open>Draining the notifications: \<open>SQL_get_and_update_violation_events\<close>\<close>

datatype drain_sql = Select_unprocessed | Mark_processed int

definition NUMBER_FIELDS_OF_SQL_SELECT_TEMPLATE :: nat where
  "NUMBER_FIELDS_OF_SQL_SELECT_TEMPLATE = 5"

definition FIELD_INDEX_OF_ID :: nat where
  "FIELD_INDEX_OF_ID = 0"

definition FIELD_INDEX_OF_MONITOR_TYPE :: nat where
  "FIELD_INDEX_OF_MONITOR_TYPE = 1"

definition FIELD_INDEX_OF_MAC_ADDRESS :: nat where
  "FIELD_INDEX_OF_MAC_ADDRESS = 2"

definition FIELD_INDEX_OF_UUID :: nat where
  "FIELD_INDEX_OF_UUID = 3"

definition FIELD_INDEX_OF_VIOLATION_TIMESTAMP :: nat where
  "FIELD_INDEX_OF_VIOLATION_TIMESTAMP = 4"

text \<open>\<open>PQgetvalue\<close> on one row of a result: \<open>NULL\<close> for a column the row does not have.\<close>

definition PQgetvalue :: "string list \<Rightarrow> nat \<Rightarrow> string option" where
  "PQgetvalue row j = (if j < length row then Some (row ! j) else None)"

text \<open>The \<open>sprintf\<close> into \<open>one_record\<close>; \<open>None\<close> is a \<open>NULL\<close> handed to \<open>%s\<close>.\<close>

definition one_record_of :: "string list \<Rightarrow> string option" where
  "one_record_of row =
     (case (PQgetvalue row FIELD_INDEX_OF_ID, PQgetvalue row FIELD_INDEX_OF_MONITOR_TYPE,
            PQgetvalue row FIELD_INDEX_OF_MAC_ADDRESS, PQgetvalue row FIELD_INDEX_OF_UUID,
            PQgetvalue row FIELD_INDEX_OF_VIOLATION_TIMESTAMP) of
        (Some i, Some m, Some a, Some u, Some v) \<Rightarrow>
          Some (i @ '','' @ m @ '','' @ a @ '','' @ u @ '','' @ v @ '';'')
      | _ \<Rightarrow> None)"

text \<open>
  The loop \<open>for(i = 0 ; i < total_rows ; i++)\<close> over the rows of the result. The state is
  the server and the caller's buffer, a C string in \<open>buf_len\<close> bytes. The result of the
  \<open>UPDATE\<close> is stored in \<open>ret_val\<close> and not looked at. The id goes through \<open>atoi\<close> and
  \<open>%d\<close>, that is through a C \<open>int\<close>: \<open>None\<close> is also an id that no \<open>int\<close> holds.
\<close>

fun drain_rows ::
  "(drain_sql, 's) PQexec \<Rightarrow> nat \<Rightarrow> nat \<Rightarrow> string list list \<Rightarrow> 's \<times> string \<Rightarrow>
   (ErrorCode \<times> 's \<times> string) option" where
  "drain_rows pqexec db_conn buf_len [] st = Some (WORK_SUCCESSFULLY, st)"
| "drain_rows pqexec db_conn buf_len (row # rows) st =
     (case st of (srv, buf) \<Rightarrow>
      case one_record_of row of
        None \<Rightarrow> None
      | Some one_record \<Rightarrow>
          if buf_len > length buf + length one_record
          then (case PQgetvalue row FIELD_INDEX_OF_ID of
                  None \<Rightarrow> Some (E_API_PROTOCOL_FORMAT, srv, buf @ one_record)
                | Some id_text \<Rightarrow>
                    if \<not> representable_int (atoi id_text) then None
                    else
                      let (ret_val, srv') =
                            SQL_execute pqexec db_conn (Mark_processed (atoi id_text)) srv
                      in drain_rows pqexec db_conn buf_len rows (srv', buf @ one_record))
          else drain_rows pqexec db_conn buf_len rows (srv, buf))"

definition SQL_get_and_update_violation_events ::
  "nat \<Rightarrow> (drain_sql, 's) PQexec \<Rightarrow> string \<Rightarrow> nat \<Rightarrow> DBConnectionList \<times> 's \<Rightarrow>
   (ErrorCode \<times> DBConnectionList \<times> 's \<times> string) option" where
  "SQL_get_and_update_violation_events retries pqexec buf buf_len st =
     (case st of (pool, srv) \<Rightarrow>
      case SQL_get_database_connection retries pool of
        (Inl e, pool1) \<Rightarrow> Some (E_SQL_OPEN_DATABASE, pool1, srv, buf)
      | (Inr (db_conn, db_serial_id), pool1) \<Rightarrow>
          let (res, srv1) = pqexec db_conn Select_unprocessed srv
          in if PQresultStatus res \<noteq> PGRES_TUPLES_OK
             then Some (E_SQL_EXECUTE,
                        snd (SQL_release_database_connection pool1 db_serial_id), srv1, buf)
             else
               let total_rows = PQntuples res;
                   total_fields = PQnfields res
               in if total_rows > 0 \<and> total_fields = NUMBER_FIELDS_OF_SQL_SELECT_TEMPLATE
                  then (case drain_rows pqexec db_conn buf_len (tuples res) (srv1, buf) of
                          None \<Rightarrow> None
                        | Some (e, srv2, buf') \<Rightarrow>
                            Some (e, snd (SQL_release_database_connection pool1 db_serial_id),
                                  srv2, buf'))
                  else Some (WORK_SUCCESSFULLY,
                             snd (SQL_release_database_connection pool1 db_serial_id),
                             srv1, buf))"

text \<open>
  The text of a row of \<open>notification_table\<close> as the \<open>SELECT\<close> returns it: \<open>NULL\<close> is the
  empty string for \<open>PQgetvalue\<close>. The text of a timestamp depends on the type of the column
  and on the settings of the session, so it is a parameter.
\<close>

definition text_of :: "('a \<Rightarrow> string) \<Rightarrow> 'a option \<Rightarrow> string" where
  "text_of out v = (case v of None \<Rightarrow> [] | Some x \<Rightarrow> out x)"

definition notification_tuple :: "(timestamp \<Rightarrow> string) \<Rightarrow> notification_row \<Rightarrow> string list" where
  "notification_tuple timestamp_out n =
     [string_of_int (n_id n), text_of string_of_int (n_monitor_type n),
      text_of id (n_mac_address n), text_of id (n_uuid n),
      text_of timestamp_out (n_violation_timestamp n)]"

text \<open>\<open>WHERE processed != 1 ORDER BY id ASC\<close>.\<close>

definition unprocessed_by_id :: "notification_row list \<Rightarrow> notification_row list" where
  "unprocessed_by_id table = sort_key n_id (filter (\<lambda>n. n_processed n \<noteq> 1) table)"

definition mark_processed :: "int \<Rightarrow> notification_row list \<Rightarrow> notification_row list" where
  "mark_processed i table = map (\<lambda>n. if n_id n = i then n\<lparr>n_processed := 1\<rparr> else n) table"

text \<open>
  The server holding \<open>notification_table\<close>: a statement that the oracle \<open>accepts\<close> is run,
  any other fails and changes nothing.
\<close>

fun notification_server ::
  "(drain_sql \<Rightarrow> notification_row list \<Rightarrow> bool) \<Rightarrow> (timestamp \<Rightarrow> string) \<Rightarrow>
   (drain_sql, notification_row list) PQexec" where
  "notification_server accepts timestamp_out db_conn Select_unprocessed table =
     (if accepts Select_unprocessed table
      then (\<lparr>PQresultStatus = PGRES_TUPLES_OK,
             PQnfields = NUMBER_FIELDS_OF_SQL_SELECT_TEMPLATE,
             tuples = map (notification_tuple timestamp_out) (unprocessed_by_id table)\<rparr>, table)
      else (command_result PGRES_FATAL_ERROR, table))"
| "notification_server accepts timestamp_out db_conn (Mark_processed i) table =
     (if accepts (Mark_processed i) table
      then (command_result PGRES_COMMAND_OK, mark_processed i table)
      else (command_result PGRES_FATAL_ERROR, table))"

text \<open>The line that the drain writes for a row of the table.\<close>

definition notification_line :: "(timestamp \<Rightarrow> string) \<Rightarrow> notification_row \<Rightarrow> string" where
  "notification_line timestamp_out n =
     string_of_int (n_id n) @ '','' @ text_of string_of_int (n_monitor_type n) @ '',''
     @ text_of id (n_mac_address n) @ '','' @ text_of id (n_uuid n) @ '',''
     @ text_of timestamp_out (n_violation_timestamp n) @ '';''"

section \<open>The packet receiver: \<open>process_api_recv\<close> (Geo-Fencing.c)\<close>

text \<open>
  Modelled from the spec: the memory pool (\<open>mp_alloc\<close>) is defined outside the
  two source files. The spec says: a slab pool of a fixed number of slots,
  \<open>alloc()\<close> returns a zeroed slot or fails, \<open>free()\<close> returns it. A pool is the list of
  its slots, \<open>True\<close> for a slot that is handed out.
\<close>

type_synonym Memory_Pool = "bool list"

fun mp_alloc :: "Memory_Pool \<Rightarrow> nat option \<times> Memory_Pool" where
  "mp_alloc [] = (None, [])"
| "mp_alloc (used # slots) =
     (if \<not> used then (Some 0, True # slots)
      else (case mp_alloc slots of
              (None, slots') \<Rightarrow> (None, used # slots')
            | (Some i, slots') \<Rightarrow> (Some (Suc i), used # slots')))"

definition mp_free :: "Memory_Pool \<Rightarrow> nat \<Rightarrow> Memory_Pool" where
  "mp_free pool slot = (if slot < length pool then pool[slot := False] else pool)"

definition slots_in_use :: "Memory_Pool \<Rightarrow> nat" where
  "slots_in_use pool = length (filter (\<lambda>used. used) pool)"

datatype pkt_type = UDP | NONE

record sPkt =
  pkt_kind :: pkt_type
  address :: string
  content :: string

text \<open>
  The slot contents of a \<open>packet_content\<close> and the part of \<open>geo_fence_config\<close> that the
  receiver works on: the memory pool of the packets, what its slots hold, and the jobs that
  the worker pool has accepted, each the slot of its packet.
\<close>

record spkt_content =
  ip_address :: string
  pkt_text :: string

record geo_fence_config =
  pkt_content_mempool :: Memory_Pool
  pkt_slots :: "nat \<rightharpoonup> spkt_content"
  worker_jobs :: "nat list"

text \<open>
  What the receiver meets from outside for one packet: the packet that \<open>udp_getrecv\<close>
  returns, the pairs \<open>(num_threads_working, num_threads_alive)\<close> that it reads one after the
  other while it waits for a worker, and whether \<open>thpool_add_work\<close> then takes the job
  (the worker pool is defined outside the two source files).
\<close>

record arrival =
  temppkt :: sPkt
  worker_counts :: "(int \<times> int) list"
  add_work_succeeds :: bool

text \<open>
  The loop \<open>while(num_threads_working == num_threads_alive) Sleep(WAITING_TIME)\<close>:
  \<open>False\<close> when every reading finds all workers busy, and the receiver waits on.
\<close>

fun worker_becomes_free :: "(int \<times> int) list \<Rightarrow> bool" where
  "worker_becomes_free [] = False"
| "worker_becomes_free ((working, alive) # later) =
     (if working = alive then worker_becomes_free later else True)"

text \<open>
  One round of \<open>while(is_running == true)\<close>. \<open>None\<close>: the receiver does not reach
  the next round, because \<open>mp_alloc\<close> gave \<open>NULL\<close> and \<open>memset\<close> is called with it, or
  because no worker becomes free. The value of \<open>thpool_add_work\<close> is stored in
  \<open>return_value\<close> and not looked at.
\<close>

definition process_api_recv_round :: "arrival \<Rightarrow> geo_fence_config \<Rightarrow> geo_fence_config option" where
  "process_api_recv_round a cfg =
     (if pkt_kind (temppkt a) = UDP
      then (case mp_alloc (pkt_content_mempool cfg) of
              (None, pool') \<Rightarrow> None
            | (Some slot, pool') \<Rightarrow>
                let pkt_content = \<lparr>ip_address = address (temppkt a),
                                   pkt_text = content (temppkt a)\<rparr>;
                    cfg1 = cfg\<lparr>pkt_content_mempool := pool',
                               pkt_slots := (pkt_slots cfg)(slot \<mapsto> pkt_content)\<rparr>
                in if \<not> worker_becomes_free (worker_counts a) then None
                   else
                     let return_value = add_work_succeeds a
                     in Some (if add_work_succeeds a
                              then cfg1\<lparr>worker_jobs := worker_jobs cfg1 @ [slot]\<rparr>
                              else cfg1))
      else Some cfg)"

text \<open>The loop, over the packets that arrive while \<open>is_running\<close> holds.\<close>

fun process_api_recv :: "arrival list \<Rightarrow> geo_fence_config \<Rightarrow> geo_fence_config option" where
  "process_api_recv [] cfg = Some cfg"
| "process_api_recv (a # later) cfg =
     (case process_api_recv_round a cfg of
        None \<Rightarrow> None
      | Some cfg' \<Rightarrow> process_api_recv later cfg')"

section \<open>Properties\<close>

subsection \<open>Transaction helpers\<close>

lemma SQL_execute_status:
  "fst (SQL_execute pqexec db_conn q srv) =
     (if PQresultStatus (fst (pqexec db_conn q srv)) \<noteq> PGRES_COMMAND_OK then E_SQL_EXECUTE
      else WORK_SUCCESSFULLY)"
  by (simp add: SQL_execute_def split: prod.splits)

lemma SQL_execute_server: "snd (SQL_execute pqexec db_conn q srv) = snd (pqexec db_conn q srv)"
  by (simp add: SQL_execute_def split: prod.splits)

text \<open>
  C10. \<open>SQL_begin_transaction\<close>, \<open>SQL_commit_transaction\<close> and \<open>SQL_rollback_transaction\<close>
  run their statement and return \<open>WORK_SUCCESSFULLY\<close> whatever \<open>SQL_execute\<close> returned for
  it; on a server that rejects every statement \<open>SQL_execute\<close> returns \<open>E_SQL_EXECUTE\<close> for
  each of the three statements and the helpers still return \<open>WORK_SUCCESSFULLY\<close>.
\<close>

theorem transaction_helpers_return_success:
  "fst (SQL_begin_transaction pqexec db_conn srv) = WORK_SUCCESSFULLY \<and>
   snd (SQL_begin_transaction pqexec db_conn srv)
     = snd (SQL_execute pqexec db_conn BEGIN_TRANSACTION srv) \<and>
   fst (SQL_commit_transaction pqexec db_conn srv) = WORK_SUCCESSFULLY \<and>
   snd (SQL_commit_transaction pqexec db_conn srv)
     = snd (SQL_execute pqexec db_conn END_TRANSACTION srv) \<and>
   fst (SQL_rollback_transaction pqexec db_conn srv) = WORK_SUCCESSFULLY \<and>
   snd (SQL_rollback_transaction pqexec db_conn srv)
     = snd (SQL_execute pqexec db_conn ROLLBACK srv) \<and>
   fst (SQL_execute (logging_server (\<lambda>log q. PGRES_FATAL_ERROR)) db_conn q log) = E_SQL_EXECUTE \<and>
   SQL_begin_transaction (logging_server (\<lambda>log q. PGRES_FATAL_ERROR)) db_conn log
     = (WORK_SUCCESSFULLY, log @ [(db_conn, BEGIN_TRANSACTION)]) \<and>
   SQL_commit_transaction (logging_server (\<lambda>log q. PGRES_FATAL_ERROR)) db_conn log
     = (WORK_SUCCESSFULLY, log @ [(db_conn, END_TRANSACTION)]) \<and>
   SQL_rollback_transaction (logging_server (\<lambda>log q. PGRES_FATAL_ERROR)) db_conn log
     = (WORK_SUCCESSFULLY, log @ [(db_conn, ROLLBACK)])"
  by (simp add: SQL_begin_transaction_def SQL_commit_transaction_def
        SQL_rollback_transaction_def SQL_execute_def logging_server_def command_result_def
        split: prod.splits)

subsection \<open>The connection pool\<close>

lemma pool_counts: "in_use_count pool + free_count pool = length pool"
  unfolding in_use_count_def free_count_def
  using sum_length_filter_compl[of "\<lambda>n. is_used n \<noteq> 0" pool] by simp

lemma scan_for_free_None: "scan_for_free pool = None \<longleftrightarrow> (\<forall>n\<in>set pool. is_used n \<noteq> 0)"
  by (induction pool) (auto split: option.splits)

lemma scan_for_free_Some:
  "scan_for_free pool = Some (r, pool') \<Longrightarrow>
   \<exists>i<length pool. is_used (pool ! i) = 0 \<and> (\<forall>j<i. is_used (pool ! j) \<noteq> 0)
      \<and> r = (db (pool ! i), serial_id (pool ! i))
      \<and> pool' = pool[i := (pool ! i)\<lparr>is_used := 1\<rparr>]"
proof (induction pool arbitrary: r pool')
  case Nil
  then show ?case by simp
next
  case (Cons n ns)
  show ?case
  proof (cases "is_used n = 0")
    case True
    with Cons.prems have "r = (db n, serial_id n)" "pool' = n\<lparr>is_used := 1\<rparr> # ns" by auto
    with True show ?thesis by (intro exI[of _ 0]) simp
  next
    case False
    with Cons.prems obtain rest' where s: "scan_for_free ns = Some (r, rest')"
      and p: "pool' = n # rest'"
      by (auto split: option.splits)
    from Cons.IH[OF s] obtain i where i: "i < length ns" "is_used (ns ! i) = 0"
      "\<forall>j<i. is_used (ns ! j) \<noteq> 0" "r = (db (ns ! i), serial_id (ns ! i))"
      "rest' = ns[i := (ns ! i)\<lparr>is_used := 1\<rparr>]" by blast
    have "\<forall>j<Suc i. is_used ((n # ns) ! j) \<noteq> 0"
      using False i(3) by (auto simp: less_Suc_eq_0_disj)
    with i p show ?thesis by (intro exI[of _ "Suc i"]) simp
  qed
qed

lemma get_connection_none_free:
  "scan_for_free pool = None \<Longrightarrow>
   SQL_get_database_connection k pool = (Inl E_SQL_OPEN_DATABASE, pool)"
  by (induction k) auto

lemma get_connection_some_free:
  "scan_for_free pool = Some (r, pool') \<Longrightarrow> 0 < k \<Longrightarrow>
   SQL_get_database_connection k pool = (Inr r, pool')"
  by (cases k) auto

lemma release_absent:
  "\<forall>n\<in>set pool. serial_id n \<noteq> sid \<Longrightarrow>
   SQL_release_database_connection pool sid = (E_SQL_OPEN_DATABASE, pool)"
  by (induction pool) auto

lemma release_present:
  "\<exists>n\<in>set pool. serial_id n = sid \<Longrightarrow>
   \<exists>i<length pool. serial_id (pool ! i) = sid \<and> (\<forall>j<i. serial_id (pool ! j) \<noteq> sid) \<and>
     SQL_release_database_connection pool sid
       = (WORK_SUCCESSFULLY, pool[i := (pool ! i)\<lparr>is_used := 0\<rparr>])"
proof (induction pool)
  case Nil
  then show ?case by simp
next
  case (Cons n ns)
  show ?case
  proof (cases "serial_id n = sid")
    case True
    then show ?thesis by (intro exI[of _ 0]) simp
  next
    case False
    with Cons.prems have "\<exists>n\<in>set ns. serial_id n = sid" by auto
    from Cons.IH[OF this] obtain i where i: "i < length ns" "serial_id (ns ! i) = sid"
      "\<forall>j<i. serial_id (ns ! j) \<noteq> sid"
      "SQL_release_database_connection ns sid
         = (WORK_SUCCESSFULLY, ns[i := (ns ! i)\<lparr>is_used := 0\<rparr>])" by blast
    have "\<forall>j<Suc i. serial_id ((n # ns) ! j) \<noteq> sid"
      using False i(3) by (auto simp: less_Suc_eq_0_disj)
    with i False show ?thesis by (intro exI[of _ "Suc i"]) simp
  qed
qed

lemma in_use_count_acquire:
  "i < length pool \<Longrightarrow> is_used (pool ! i) = 0 \<Longrightarrow>
   in_use_count (pool[i := (pool ! i)\<lparr>is_used := 1\<rparr>]) = Suc (in_use_count pool)"
proof (induction pool arbitrary: i)
  case Nil
  then show ?case by simp
next
  case (Cons n ns)
  then show ?case by (cases i) (auto simp: in_use_count_def)
qed

lemma distinct_serial_unique:
  "distinct (map serial_id pool) \<Longrightarrow> i < length pool \<Longrightarrow> j < length pool \<Longrightarrow>
   serial_id (pool ! i) = serial_id (pool ! j) \<Longrightarrow> i = j"
  by (metis distinct_conv_nth length_map nth_map)

text \<open>
  C8. For a pool whose serial ids are distinct and a positive number of retry rounds:
  the entries in use and the free entries add up to the size of the pool, before and after
  either operation, and neither changes the size. \<open>SQL_get_database_connection\<close> either
  returns the handle and serial id of an entry that was free, which is the one entry it
  changes, to in-use, or it fails with \<open>E_SQL_OPEN_DATABASE\<close>, which it does only when no
  entry is free, and then changes nothing. \<open>SQL_release_database_connection\<close> sets the
  flag of the one entry with the given serial id to free and changes nothing else; for a
  serial id that no entry has it fails and changes nothing.
\<close>

theorem connection_pool_invariant:
  assumes "distinct (map serial_id pool)" and "0 < retries"
  shows
    "in_use_count pool + free_count pool = length pool \<and>
     (case SQL_get_database_connection retries pool of
        (Inr (handle, sid), pool') \<Rightarrow>
          (\<exists>i<length pool. is_used (pool ! i) = 0 \<and> handle = db (pool ! i) \<and>
              sid = serial_id (pool ! i) \<and> pool' = pool[i := (pool ! i)\<lparr>is_used := 1\<rparr>]) \<and>
          in_use_count pool' = in_use_count pool + 1 \<and>
          free_count pool' + 1 = free_count pool \<and>
          length pool' = length pool \<and>
          in_use_count pool' + free_count pool' = length pool
      | (Inl e, pool') \<Rightarrow>
          e = E_SQL_OPEN_DATABASE \<and> pool' = pool \<and> free_count pool = 0) \<and>
     (case SQL_release_database_connection pool released of
        (e, pool') \<Rightarrow>
          length pool' = length pool \<and>
          in_use_count pool' + free_count pool' = length pool \<and>
          (if released \<in> serial_id ` set pool
           then e = WORK_SUCCESSFULLY \<and>
                (\<exists>i<length pool. serial_id (pool ! i) = released \<and>
                   (\<forall>j<length pool. serial_id (pool ! j) = released \<longrightarrow> j = i) \<and>
                   pool' = pool[i := (pool ! i)\<lparr>is_used := 0\<rparr>])
           else e = E_SQL_OPEN_DATABASE \<and> pool' = pool))"
proof (intro conjI)
  show "in_use_count pool + free_count pool = length pool" by (rule pool_counts)
next
  show "case SQL_get_database_connection retries pool of
        (Inr (handle, sid), pool') \<Rightarrow>
          (\<exists>i<length pool. is_used (pool ! i) = 0 \<and> handle = db (pool ! i) \<and>
              sid = serial_id (pool ! i) \<and> pool' = pool[i := (pool ! i)\<lparr>is_used := 1\<rparr>]) \<and>
          in_use_count pool' = in_use_count pool + 1 \<and>
          free_count pool' + 1 = free_count pool \<and>
          length pool' = length pool \<and>
          in_use_count pool' + free_count pool' = length pool
      | (Inl e, pool') \<Rightarrow>
          e = E_SQL_OPEN_DATABASE \<and> pool' = pool \<and> free_count pool = 0"
  proof -
    consider
      (fail) "SQL_get_database_connection retries pool = (Inl E_SQL_OPEN_DATABASE, pool)"
        "scan_for_free pool = None"
    | (ok) r pool' where "scan_for_free pool = Some (r, pool')"
        "SQL_get_database_connection retries pool = (Inr r, pool')"
    proof (cases "scan_for_free pool")
      case None
      with that(1) get_connection_none_free show thesis by blast
    next
      case (Some a)
      obtain r pool' where "a = (r, pool')" by (cases a)
      with Some that(2) get_connection_some_free assms(2) show thesis by blast
    qed
    then show ?thesis
    proof cases
      case fail
      from fail(2) have "\<forall>n\<in>set pool. is_used n \<noteq> 0" by (simp add: scan_for_free_None)
      then have "filter (\<lambda>n. is_used n = 0) pool = []" by (simp add: filter_empty_conv)
      then have "free_count pool = 0" by (simp add: free_count_def)
      with fail(1) show ?thesis by simp
    next
      case ok
      from scan_for_free_Some[OF ok(1)] obtain i where i: "i < length pool"
        "is_used (pool ! i) = 0" "r = (db (pool ! i), serial_id (pool ! i))"
        "pool' = pool[i := (pool ! i)\<lparr>is_used := 1\<rparr>]" by blast
      have len: "length pool' = length pool" using i(4) by simp
      have inc: "in_use_count pool' = in_use_count pool + 1"
        using in_use_count_acquire[OF i(1,2)] i(4) by simp
      have "in_use_count pool' + free_count pool' = length pool"
        using pool_counts[of pool'] len by simp
      moreover have "in_use_count pool + free_count pool = length pool" by (rule pool_counts)
      ultimately have dec: "free_count pool' + 1 = free_count pool" using inc by simp
      have ex: "\<exists>i<length pool. is_used (pool ! i) = 0 \<and> fst r = db (pool ! i) \<and>
              snd r = serial_id (pool ! i) \<and> pool' = pool[i := (pool ! i)\<lparr>is_used := 1\<rparr>]"
        using i by (intro exI[of _ i]) simp
      have tot: "in_use_count pool' + free_count pool' = length pool"
        using pool_counts[of pool'] len by simp
      show ?thesis
        unfolding ok(2) using ex len inc dec tot by (simp add: case_prod_beta)
    qed
  qed
next
  show "case SQL_release_database_connection pool released of
        (e, pool') \<Rightarrow>
          length pool' = length pool \<and>
          in_use_count pool' + free_count pool' = length pool \<and>
          (if released \<in> serial_id ` set pool
           then e = WORK_SUCCESSFULLY \<and>
                (\<exists>i<length pool. serial_id (pool ! i) = released \<and>
                   (\<forall>j<length pool. serial_id (pool ! j) = released \<longrightarrow> j = i) \<and>
                   pool' = pool[i := (pool ! i)\<lparr>is_used := 0\<rparr>])
           else e = E_SQL_OPEN_DATABASE \<and> pool' = pool)"
  proof (cases "released \<in> serial_id ` set pool")
    case True
    then have "\<exists>n\<in>set pool. serial_id n = released" by auto
    from release_present[OF this] obtain i where i: "i < length pool"
      "serial_id (pool ! i) = released"
      "SQL_release_database_connection pool released
         = (WORK_SUCCESSFULLY, pool[i := (pool ! i)\<lparr>is_used := 0\<rparr>])" by blast
    have uniq: "\<forall>j<length pool. serial_id (pool ! j) = released \<longrightarrow> j = i"
    proof (intro allI impI)
      fix j assume "j < length pool" "serial_id (pool ! j) = released"
      then show "j = i" using distinct_serial_unique[OF assms(1), of j i] i(1,2) by simp
    qed
    have ex: "\<exists>k<length pool. serial_id (pool ! k) = released \<and>
                (\<forall>j<length pool. serial_id (pool ! j) = released \<longrightarrow> j = k) \<and>
                pool[i := (pool ! i)\<lparr>is_used := 0\<rparr>] = pool[k := (pool ! k)\<lparr>is_used := 0\<rparr>]"
      using i(1,2) uniq by blast
    have tot: "in_use_count (pool[i := (pool ! i)\<lparr>is_used := 0\<rparr>])
                 + free_count (pool[i := (pool ! i)\<lparr>is_used := 0\<rparr>]) = length pool"
      using pool_counts[of "pool[i := (pool ! i)\<lparr>is_used := 0\<rparr>]"] by simp
    show ?thesis
      unfolding i(3) prod.case using True tot ex
      by (simp only: if_True length_list_update simp_thms)
  next
    case False
    then have "\<forall>n\<in>set pool. serial_id n \<noteq> released" by auto
    from release_absent[OF this] show ?thesis using False pool_counts[of pool] by simp
  qed
qed

theorem connection_pool_invariant_witness:
  "distinct (map serial_id [\<lparr>serial_id = 0, is_used = 1, db = 100\<rparr>,
                            \<lparr>serial_id = 1, is_used = 0, db = 101\<rparr>]) \<and> (0::nat) < 3 \<and>
   in_use_count [\<lparr>serial_id = 0, is_used = 1, db = 100\<rparr>,
                 \<lparr>serial_id = 1, is_used = 0, db = 101\<rparr>]
   + free_count [\<lparr>serial_id = 0, is_used = 1, db = 100\<rparr>,
                 \<lparr>serial_id = 1, is_used = 0, db = 101\<rparr>] = 2 \<and>
   SQL_get_database_connection 3 [\<lparr>serial_id = 0, is_used = 1, db = 100\<rparr>,
                                  \<lparr>serial_id = 1, is_used = 0, db = 101\<rparr>]
     = (Inr (101, 1), [\<lparr>serial_id = 0, is_used = 1, db = 100\<rparr>,
                       \<lparr>serial_id = 1, is_used = 1, db = 101\<rparr>]) \<and>
   in_use_count [\<lparr>serial_id = 0, is_used = 1, db = 100\<rparr>,
                 \<lparr>serial_id = 1, is_used = 1, db = 101\<rparr>]
     = in_use_count [\<lparr>serial_id = 0, is_used = 1, db = 100\<rparr>,
                     \<lparr>serial_id = 1, is_used = 0, db = 101\<rparr>] + 1"
proof -
  let ?P = "[\<lparr>serial_id = 0, is_used = 1, db = 100\<rparr>,
             \<lparr>serial_id = 1, is_used = 0, db = 101\<rparr>]"
  let ?P' = "[\<lparr>serial_id = 0, is_used = 1, db = 100\<rparr>,
              \<lparr>serial_id = 1, is_used = 1, db = 101\<rparr>]"
  have d: "distinct (map serial_id ?P)" by simp
  have r: "(0::nat) < 3" by simp
  have g: "SQL_get_database_connection 3 ?P = (Inr (101, 1), ?P')"
    by (simp add: numeral_3_eq_3)
  note t = connection_pool_invariant[OF d r, of 0]
  have a: "in_use_count ?P + free_count ?P = 2"
    using t[THEN conjunct1] by simp
  have "case SQL_get_database_connection 3 ?P of
          (Inr (handle, sid), pool') \<Rightarrow>
            (\<exists>i<length ?P. is_used (?P ! i) = 0 \<and> handle = db (?P ! i) \<and>
                sid = serial_id (?P ! i) \<and> pool' = ?P[i := (?P ! i)\<lparr>is_used := 1\<rparr>]) \<and>
            in_use_count pool' = in_use_count ?P + 1 \<and>
            free_count pool' + 1 = free_count ?P \<and>
            length pool' = length ?P \<and>
            in_use_count pool' + free_count pool' = length ?P
        | (Inl e, pool') \<Rightarrow>
            e = E_SQL_OPEN_DATABASE \<and> pool' = ?P \<and> free_count ?P = 0"
    by (rule t[THEN conjunct2, THEN conjunct1])
  then have b: "in_use_count ?P' = in_use_count ?P + 1"
    unfolding g by (simp only: prod.case sum.case)
  show ?thesis using d r a g b by (intro conjI)
qed

subsection \<open>The summarizer\<close>

text \<open>
  A failure of one of the three later statements ends the summarizer with
  \<open>E_SQL_EXECUTE\<close>: the stable-tag update is the last statement sent when it fails.
\<close>

lemma summarize_stable_tag_failure:
  assumes "SQL_get_database_connection retries pool = (Inr (db_conn, sid), pool1)"
    and "fst (SQL_execute pqexec db_conn (Update_stable_tag w t w t tol)
              (snd (SQL_execute pqexec db_conn Reset_state srv))) \<noteq> WORK_SUCCESSFULLY"
  shows "SQL_summarize_object_location retries pqexec w t tol base (pool, srv)
         = (E_SQL_EXECUTE, snd (SQL_release_database_connection pool1 sid),
            snd (SQL_execute pqexec db_conn (Update_stable_tag w t w t tol)
                   (snd (SQL_execute pqexec db_conn Reset_state srv))))"
  using assms by (simp add: SQL_summarize_object_location_def case_prod_beta Let_def)

text \<open>
  C5. The claim fails for the first statement. On a server that rejects the reset of
  \<open>is_location_updated\<close> and accepts everything else, the summarizer sends all four
  statements over the connection it acquired, releases the connection and returns
  \<open>WORK_SUCCESSFULLY\<close>, although \<open>SQL_execute\<close> returned \<open>E_SQL_EXECUTE\<close> for the reset.
\<close>

theorem summarize_ignores_failed_reset:
  "fst (SQL_execute
          (logging_server (\<lambda>log q. if q = Reset_state then PGRES_FATAL_ERROR
                                    else PGRES_COMMAND_OK))
          100 Reset_state []) = E_SQL_EXECUTE \<and>
   SQL_summarize_object_location 3
     (logging_server (\<lambda>log q. if q = Reset_state then PGRES_FATAL_ERROR else PGRES_COMMAND_OK))
     5 10 3 100
     ([\<lparr>serial_id = 0, is_used = 0, db = 100\<rparr>], [])
   = (WORK_SUCCESSFULLY,
      [\<lparr>serial_id = 0, is_used = 0, db = 100\<rparr>],
      [(100, Reset_state), (100, Update_stable_tag 5 10 5 10 3),
       (100, Update_moving_tag 5 10), (100, Update_tag_base_location 5 10 100 100)])"
  by (simp add: SQL_summarize_object_location_def SQL_execute_def logging_server_def
        command_result_def numeral_3_eq_3)

subsection \<open>Tracking reports\<close>

lemma atoi_0: "atoi ''0'' = 0"
  by code_simp

lemma atoi_1: "atoi ''1'' = 1"
  by code_simp

lemma string_of_int_7: "string_of_int 7 = ''7''"
  by code_simp

lemmas tracking_defs =
  SQL_update_object_tracking_data_with_battery_voltage_def track_records.simps
  identify_panic_def csv_line_def SQL_execute_def logging_server_def command_result_def
  atoi_0 atoi_1 string_of_int_7 numeral_2_eq_2 numeral_3_eq_3

text \<open>The value of \<open>is_enabled_panic_monitoring\<close> has no part in what the function does.\<close>

lemma tracking_independent_of_feature_flag:
  "SQL_update_object_tracking_data_with_battery_voltage retries pqexec fopen_succeeds
     strftime_gmtime current_time thread_id buf server_installation_path flag st
   = SQL_update_object_tracking_data_with_battery_voltage retries pqexec fopen_succeeds
     strftime_gmtime current_time thread_id buf server_installation_path flag' st"
  by (simp add: SQL_update_object_tracking_data_with_battery_voltage_def)

text \<open>
  C2. The claim fails: the function never reads \<open>is_enabled_panic_monitoring\<close>. For a
  report of one record with the panic field 1, and whatever the value of the flag, 0
  included, the panic stamp for the record's mac address is sent before the bulk insert.
\<close>

theorem panic_stamp_ignores_feature_flag:
  "(case SQL_update_object_tracking_data_with_battery_voltage 3
           (logging_server (\<lambda>log q. PGRES_COMMAND_OK)) True strftime_gmtime 1570000010 7
           [Some ''0000000000010000123400000000567800000000'', Some ''1570000000'',
            Some ''192.168.1.20'',
            Some ''0'', Some ''1'',
            Some ''aabbccddeeff'', Some ''1570000001'', Some ''1570000005'', Some ''-55'',
            Some ''1'', Some ''290'',
            Some ''1'', Some ''0'']
           ''/opt/bot'' is_enabled_panic_monitoring
           ([\<lparr>serial_id = 0, is_used = 0, db = 100\<rparr>], [], Map.empty) of
      Some (e, pool', log, fs') \<Rightarrow>
        e = WORK_SUCCESSFULLY \<and>
        log = [(100, Identify_panic ''aabbccddeeff'' MONITOR_PANIC MONITOR_PANIC),
               (100, Copy_tracking ''/opt/bot/temp/track_7'')]
    | None \<Rightarrow> False)"
  by (simp add: tracking_defs)

text \<open>
  C4. The claim fails on two of the four outcomes. When the report ends before the
  beacon's timestamp, the function returns \<open>E_API_PROTOCOL_FORMAT\<close> and the file it
  opened is still there; when no connection can be had for the bulk insert, it returns
  \<open>E_SQL_OPEN_DATABASE\<close> and the file is still there. After the bulk insert, failed or
  not, the file is gone.
\<close>

theorem temporary_file_left_behind:
  "(case SQL_update_object_tracking_data_with_battery_voltage 3
           (logging_server (\<lambda>log q. PGRES_COMMAND_OK)) True strftime_gmtime 1570000010 7
           [Some ''0000000000010000123400000000567800000000'']
           ''/opt/bot'' 1
           ([\<lparr>serial_id = 0, is_used = 0, db = 100\<rparr>], [], Map.empty) of
      Some (e, pool', log, fs') \<Rightarrow>
        e = E_API_PROTOCOL_FORMAT \<and> fs' ''/opt/bot/temp/track_7'' = Some []
    | None \<Rightarrow> False) \<and>
   (case SQL_update_object_tracking_data_with_battery_voltage 3
           (logging_server (\<lambda>log q. PGRES_COMMAND_OK)) True strftime_gmtime 1570000010 7
           [Some ''0000000000010000123400000000567800000000'', Some ''1570000000'',
            Some ''192.168.1.20'', Some ''0'', Some ''0'', Some ''1'', Some ''0'']
           ''/opt/bot'' 1
           ([\<lparr>serial_id = 0, is_used = 1, db = 100\<rparr>], [], Map.empty) of
      Some (e, pool', log, fs') \<Rightarrow>
        e = E_SQL_OPEN_DATABASE \<and> fs' ''/opt/bot/temp/track_7'' = Some []
    | None \<Rightarrow> False) \<and>
   (case SQL_update_object_tracking_data_with_battery_voltage 3
           (logging_server (\<lambda>log q. PGRES_FATAL_ERROR)) True strftime_gmtime 1570000010 7
           [Some ''0000000000010000123400000000567800000000'', Some ''1570000000'',
            Some ''192.168.1.20'', Some ''0'', Some ''0'', Some ''1'', Some ''0'']
           ''/opt/bot'' 1
           ([\<lparr>serial_id = 0, is_used = 0, db = 100\<rparr>], [], Map.empty) of
      Some (e, pool', log, fs') \<Rightarrow>
        e = E_SQL_EXECUTE \<and> fs' ''/opt/bot/temp/track_7'' = None
    | None \<Rightarrow> False) \<and>
   (case SQL_update_object_tracking_data_with_battery_voltage 3
           (logging_server (\<lambda>log q. PGRES_COMMAND_OK)) True strftime_gmtime 1570000010 7
           [Some ''0000000000010000123400000000567800000000'', Some ''1570000000'',
            Some ''192.168.1.20'', Some ''0'', Some ''0'', Some ''1'', Some ''0'']
           ''/opt/bot'' 1
           ([\<lparr>serial_id = 0, is_used = 0, db = 100\<rparr>], [], Map.empty) of
      Some (e, pool', log, fs') \<Rightarrow>
        e = WORK_SUCCESSFULLY \<and> fs' ''/opt/bot/temp/track_7'' = None
    | None \<Rightarrow> False)"
  by (simp add: tracking_defs)

subsection \<open>The packet receiver\<close>

lemma mp_alloc_in_use:
  "mp_alloc pool = (Some slot, pool') \<Longrightarrow> slots_in_use pool' = Suc (slots_in_use pool)"
proof (induction pool arbitrary: slot pool')
  case Nil
  then show ?case by simp
next
  case (Cons used slots)
  then show ?case
    by (auto simp: slots_in_use_def split: if_splits prod.splits option.splits)
qed

text \<open>
  Whatever \<open>thpool_add_work\<close> answers, a round that handles a UDP packet ends with one
  more slot of the packet pool in use.
\<close>

lemma receiver_round_keeps_slot:
  "process_api_recv_round a cfg = Some cfg' \<Longrightarrow> pkt_kind (temppkt a) = UDP \<Longrightarrow>
   slots_in_use (pkt_content_mempool cfg') = Suc (slots_in_use (pkt_content_mempool cfg))"
  by (auto simp: process_api_recv_round_def Let_def mp_alloc_in_use
           split: prod.splits option.splits if_splits)

text \<open>
  C9. The claim fails: the receiver stores what \<open>thpool_add_work\<close> returns and goes on.
  With a pool of two free slots, one UDP packet and a worker pool that refuses the job,
  the round ends with the packet's slot still in use and no job queued.
\<close>

theorem failed_submission_keeps_slot:
  "(case process_api_recv
           [\<lparr>temppkt = \<lparr>pkt_kind = UDP, address = ''192.168.1.10'',
                          content = ''0000000000010000123400000000567800000000;192.168.1.10;0;0;''\<rparr>,
             worker_counts = [(0, 4)], add_work_succeeds = False\<rparr>]
           \<lparr>pkt_content_mempool = [False, False], pkt_slots = Map.empty, worker_jobs = []\<rparr> of
      Some cfg' \<Rightarrow>
        pkt_content_mempool cfg' = [True, False] \<and> worker_jobs cfg' = [] \<and>
        slots_in_use (pkt_content_mempool cfg') = 1
    | None \<Rightarrow> False)"
  by (simp add: process_api_recv_round_def slots_in_use_def)

subsection \<open>Beacon registration\<close>

lemma decimal_value_Nil: "decimal_value [] = 0"
  by (simp add: decimal_value_def)

lemma decimal_value_Cons:
  "decimal_value (c # cs) = digit_value c * 10 ^ length cs + decimal_value cs"
  by (simp add: decimal_value_def sum.lessThan_Suc_shift del: sum.lessThan_Suc)

lemma leading_digits_all:
  "\<forall>c\<in>set s. isdigit c \<Longrightarrow>
   leading_digits_value acc s = acc * 10 ^ length s + decimal_value s"
proof (induction s arbitrary: acc)
  case Nil
  then show ?case by (simp add: decimal_value_Nil)
next
  case (Cons c cs)
  then show ?case by (simp add: decimal_value_Cons algebra_simps)
qed

lemma isdigit_not_space: "isdigit c \<Longrightarrow> \<not> isspace c"
  by (auto simp: isdigit_def isspace_def)

lemma isdigit_not_sign: "isdigit c \<Longrightarrow> c \<noteq> CHR ''-'' \<and> c \<noteq> CHR ''+''"
  by (auto simp: isdigit_def)

text \<open>On a string of digits \<open>atoi\<close> returns the number that the string denotes.\<close>

lemma atoi_digits:
  assumes "\<forall>c\<in>set s. isdigit c"
  shows "atoi s = int (decimal_value s)"
proof (cases s)
  case Nil
  then show ?thesis by (simp add: atoi_def decimal_value_Nil)
next
  case (Cons c cs)
  with assms have c: "isdigit c" by simp
  then have "dropWhile isspace s = s" using Cons isdigit_not_space by simp
  then show ?thesis
    using Cons c isdigit_not_sign[OF c] leading_digits_all[OF assms, of 0]
    by (simp add: atoi_def)
qed

text \<open>
  Every statement that the registration loop sends carries the two coordinates that
  \<open>atoi\<close> reads from the slices of its uuid, and the uuid fits \<open>str_uuid\<close>.
\<close>

lemma register_lbeacons_log:
  "register_lbeacons L (logging_server oracle) c gw n toks log = Some (e, log') \<Longrightarrow>
   \<exists>new. log' = log @ new \<and>
     (\<forall>q\<in>set new. \<exists>uuid ip ts.
         q = (c, Upsert_lbeacon uuid ip S_NORMAL_STATUS gw ts
                   (atoi (take 8 (drop 12 uuid))) (atoi (take 8 (drop 24 uuid))))
         \<and> length uuid < L)"
proof (induction n arbitrary: toks log)
  case 0
  then show ?case by simp
next
  case (Suc n)
  obtain u t1 where u: "strtok_save toks = (u, t1)" by (cases "strtok_save toks")
  obtain ts t2 where ts: "strtok_save t1 = (ts, t2)" by (cases "strtok_save t1")
  obtain ip t3 where ip: "strtok_save t2 = (ip, t3)" by (cases "strtok_save t2")
  from Suc.prems u ts ip obtain uuid ipv tsv
    where v: "u = Some uuid" "ip = Some ipv" "ts = Some tsv" and len: "length uuid < L"
    by (auto split: option.splits if_splits)
  let ?q = "Upsert_lbeacon uuid ipv S_NORMAL_STATUS gw tsv
              (atoi (take 8 (drop 12 uuid))) (atoi (take 8 (drop 24 uuid)))"
  let ?log1 = "log @ [(c, ?q)]"
  have ex: "SQL_execute (logging_server oracle) c ?q log
              = (if oracle log ?q \<noteq> PGRES_COMMAND_OK then E_SQL_EXECUTE
                 else WORK_SUCCESSFULLY, ?log1)"
    by (simp add: SQL_execute_def logging_server_def command_result_def)
  show ?case
  proof (cases "oracle log ?q = PGRES_COMMAND_OK")
    case False
    with Suc.prems u ts ip v len ex have "log' = ?log1"
      by (simp add: strncpy_from_def INDEX_OF_COORDINATE_X_IN_UUID_def
            INDEX_OF_COORDINATE_Y_IN_UUID_def LENGTH_OF_COORDINATE_IN_UUID_def
          split: if_splits)
    with len show ?thesis by auto
  next
    case True
    with Suc.prems u ts ip v len ex
    have "register_lbeacons L (logging_server oracle) c gw n t3 ?log1 = Some (e, log')"
      by (simp add: strncpy_from_def INDEX_OF_COORDINATE_X_IN_UUID_def
            INDEX_OF_COORDINATE_Y_IN_UUID_def LENGTH_OF_COORDINATE_IN_UUID_def
          split: if_splits)
    from Suc.IH[OF this] obtain new where new: "log' = ?log1 @ new"
      "\<forall>q\<in>set new. \<exists>uuid ip ts.
         q = (c, Upsert_lbeacon uuid ip S_NORMAL_STATUS gw ts
                   (atoi (take 8 (drop 12 uuid))) (atoi (take 8 (drop 24 uuid))))
         \<and> length uuid < L" by blast
    have "log' = log @ ((c, ?q) # new)" using new(1) by simp
    moreover have "\<forall>q\<in>set ((c, ?q) # new). \<exists>uuid ip ts.
         q = (c, Upsert_lbeacon uuid ip S_NORMAL_STATUS gw ts
                   (atoi (take 8 (drop 12 uuid))) (atoi (take 8 (drop 24 uuid))))
         \<and> length uuid < L"
      using new(2) len by auto
    ultimately show ?thesis by blast
  qed
qed

lemma registration_log:
  assumes "SQL_update_lbeacon_registration_status retries L (logging_server oracle) buf gw
             (pool, []) = Some (e, pool', log)"
    and "(c, Upsert_lbeacon uuid ip health gateway ts x y) \<in> set log"
  shows "x = atoi (take 8 (drop 12 uuid)) \<and> y = atoi (take 8 (drop 24 uuid)) \<and>
         length uuid < L"
proof -
  from assms(2) have ne: "log \<noteq> []" by auto
  from assms(1) ne obtain c' n toks e' where
    "register_lbeacons L (logging_server oracle) c' gw n toks [] = Some (e', log)"
    by (auto simp: SQL_update_lbeacon_registration_status_def Let_def
          split: prod.splits option.splits if_splits sum.splits)
  from register_lbeacons_log[OF this] assms(2) show ?thesis by auto
qed

lemma atoi_00001234: "atoi ''00001234'' = 1234"
  by code_simp

lemma atoi_00005678: "atoi ''00005678'' = 5678"
  by code_simp

lemma registration_example:
  "SQL_update_lbeacon_registration_status 3 41 (logging_server (\<lambda>log q. PGRES_COMMAND_OK))
     [Some ''1'', Some ''192.168.1.10'', Some ''0000000000010000123400000000567800000000'',
      Some ''1570000000'', Some ''192.168.1.20'']
     ''192.168.1.10'' ([\<lparr>serial_id = 0, is_used = 0, db = 100\<rparr>], [])
   = Some (WORK_SUCCESSFULLY, [\<lparr>serial_id = 0, is_used = 0, db = 100\<rparr>],
           [(100, Upsert_lbeacon ''0000000000010000123400000000567800000000'' ''192.168.1.20''
                    0 ''192.168.1.10'' ''1570000000'' 1234 5678)])"
  by (simp add: SQL_update_lbeacon_registration_status_def atoi_1 atoi_00001234 atoi_00005678
        strncpy_from_def INDEX_OF_COORDINATE_X_IN_UUID_def INDEX_OF_COORDINATE_Y_IN_UUID_def
        LENGTH_OF_COORDINATE_IN_UUID_def S_NORMAL_STATUS_def SQL_execute_def
        logging_server_def command_result_def numeral_3_eq_3)

text \<open>
  C7. Every upsert that a registration call sends for a uuid of at least 32 characters
  whose characters [12..20) and [24..32) are decimal digits carries as \<open>coordinate_x\<close> the
  number that characters [12..20) denote and as \<open>coordinate_y\<close> the number that characters
  [24..32) denote. In particular the uuid 0000000000010000123400000000567800000000 is
  registered with the coordinates 1234 and 5678 (for an array \<open>str_uuid\<close> of 41 characters).
\<close>

theorem lbeacon_coordinates_from_uuid:
  assumes "SQL_update_lbeacon_registration_status retries LENGTH_OF_UUID
             (logging_server oracle) buf gateway_ip_address (pool, []) = Some (e, pool', log)"
    and "(db_conn, Upsert_lbeacon uuid ip health gateway ts coordinate_x coordinate_y) \<in> set log"
    and "32 \<le> length uuid"
    and "\<forall>c\<in>set (take 8 (drop 12 uuid)). isdigit c"
    and "\<forall>c\<in>set (take 8 (drop 24 uuid)). isdigit c"
  shows "coordinate_x = int (decimal_value (take 8 (drop 12 uuid))) \<and>
         coordinate_y = int (decimal_value (take 8 (drop 24 uuid))) \<and>
         SQL_update_lbeacon_registration_status 3 41
           (logging_server (\<lambda>log q. PGRES_COMMAND_OK))
           [Some ''1'', Some ''192.168.1.10'', Some ''0000000000010000123400000000567800000000'',
            Some ''1570000000'', Some ''192.168.1.20'']
           ''192.168.1.10'' ([\<lparr>serial_id = 0, is_used = 0, db = 100\<rparr>], [])
         = Some (WORK_SUCCESSFULLY, [\<lparr>serial_id = 0, is_used = 0, db = 100\<rparr>],
                 [(100, Upsert_lbeacon ''0000000000010000123400000000567800000000''
                          ''192.168.1.20'' 0 ''192.168.1.10'' ''1570000000'' 1234 5678)])"
  using registration_log[OF assms(1,2)] atoi_digits[OF assms(4)] atoi_digits[OF assms(5)]
    registration_example by simp

theorem lbeacon_coordinates_from_uuid_witness:
  "SQL_update_lbeacon_registration_status 3 41 (logging_server (\<lambda>log q. PGRES_COMMAND_OK))
     [Some ''1'', Some ''192.168.1.10'', Some ''0000000000010000123400000000567800000000'',
      Some ''1570000000'', Some ''192.168.1.20'']
     ''192.168.1.10'' ([\<lparr>serial_id = 0, is_used = 0, db = 100\<rparr>], [])
   = Some (WORK_SUCCESSFULLY, [\<lparr>serial_id = 0, is_used = 0, db = 100\<rparr>],
           [(100, Upsert_lbeacon ''0000000000010000123400000000567800000000'' ''192.168.1.20''
                    0 ''192.168.1.10'' ''1570000000'' 1234 5678)]) \<and>
   (32::nat) \<le> length ''0000000000010000123400000000567800000000'' \<and>
   list_all isdigit (take 8 (drop 12 ''0000000000010000123400000000567800000000'')) \<and>
   list_all isdigit (take 8 (drop 24 ''0000000000010000123400000000567800000000'')) \<and>
   int (decimal_value (take 8 (drop 12 ''0000000000010000123400000000567800000000''))) = 1234 \<and>
   int (decimal_value (take 8 (drop 24 ''0000000000010000123400000000567800000000''))) = 5678"
proof -
  let ?U = "''0000000000010000123400000000567800000000''"
  let ?q = "Upsert_lbeacon ?U ''192.168.1.20'' 0 ''192.168.1.10'' ''1570000000'' 1234 5678"
  have sent: "(100, ?q) \<in> set [(100::nat, ?q)]" by simp
  have len: "(32::nat) \<le> length ?U" by simp
  have dx: "\<forall>c\<in>set (take 8 (drop 12 ?U)). isdigit c" by (simp add: isdigit_def)
  have dy: "\<forall>c\<in>set (take 8 (drop 24 ?U)). isdigit c" by (simp add: isdigit_def)
  note t = lbeacon_coordinates_from_uuid[OF registration_example sent len dx dy]
  show ?thesis using t registration_example len dx dy by (simp add: list_all_iff)
qed

subsection \<open>Registering the same beacons twice\<close>

lemma upsert_other_uuid:
  "statement_uuid q \<noteq> u \<Longrightarrow> upsert_lbeacon now q T u = T u"
  by (cases q) (simp split: option.splits)

lemma upsert_this_uuid:
  "\<exists>r0. upsert_lbeacon now q T (statement_uuid q) = Some (updated_row now q r0) \<and>
        (\<forall>r. T (statement_uuid q) = Some r \<longrightarrow> r0 = r)"
proof (cases q)
  case (Upsert_lbeacon uuid ip health gateway registered x y)
  show ?thesis
  proof (cases "T uuid")
    case None
    let ?r = "\<lparr>lb_ip_address = ip, lb_health_status = health,
               lb_gateway_ip_address = gateway, lb_registered_timestamp = registered,
               lb_last_report_timestamp = now, lb_coordinate_x = x, lb_coordinate_y = y\<rparr>"
    have "upsert_lbeacon now q T (statement_uuid q) = Some (updated_row now q ?r)"
      using None Upsert_lbeacon by simp
    moreover have "\<forall>r. T (statement_uuid q) = Some r \<longrightarrow> ?r = r"
      using None Upsert_lbeacon by simp
    ultimately show ?thesis by blast
  next
    case (Some r)
    then show ?thesis using Upsert_lbeacon by simp
  qed
qed

lemma updated_row_registered:
  "lb_registered_timestamp (updated_row now q r) = lb_registered_timestamp r"
  by (cases q) simp

lemma updated_row_again:
  "lb_registered_timestamp r' = lb_registered_timestamp r \<Longrightarrow>
   updated_row now2 q r' = (updated_row now1 q r)\<lparr>lb_last_report_timestamp := now2\<rparr>"
  by (cases q) simp

lemma updated_row_last_report: "lb_last_report_timestamp (updated_row now q r) = now"
  by (cases q) simp

lemma fold_upsert_other_uuid:
  "\<forall>q\<in>set qs. statement_uuid q \<noteq> u \<Longrightarrow> fold (upsert_lbeacon now) qs T u = T u"
  by (induction qs arbitrary: T) (simp_all add: upsert_other_uuid)

lemma fold_upsert_registered:
  "T u = Some r \<Longrightarrow>
   \<exists>r'. fold (upsert_lbeacon now) qs T u = Some r' \<and>
         lb_registered_timestamp r' = lb_registered_timestamp r"
proof (induction qs arbitrary: T r)
  case Nil
  then show ?case by simp
next
  case (Cons q qs)
  show ?case
  proof (cases "statement_uuid q = u")
    case True
    from upsert_this_uuid[of now q T] True Cons.prems
    have 1: "upsert_lbeacon now q T u = Some (updated_row now q r)" by auto
    from Cons.IH[of "upsert_lbeacon now q T" "updated_row now q r"] 1
    show ?thesis by (simp add: updated_row_registered)
  next
    case False
    then have "upsert_lbeacon now q T u = Some r"
      using Cons.prems by (simp add: upsert_other_uuid)
    from Cons.IH[of "upsert_lbeacon now q T" r] this show ?thesis by simp
  qed
qed

lemma fold_upsert_last:
  assumes "qs = pre @ q # post" and "statement_uuid q = u"
    and "\<forall>z\<in>set post. statement_uuid z \<noteq> u"
  shows "\<exists>r0. fold (upsert_lbeacon now) qs T u = Some (updated_row now q r0) \<and>
           (\<forall>r. T u = Some r \<longrightarrow> lb_registered_timestamp r0 = lb_registered_timestamp r)"
proof -
  let ?T' = "fold (upsert_lbeacon now) pre T"
  from upsert_this_uuid[of now q ?T'] assms(2) obtain r0 where
    r0: "upsert_lbeacon now q ?T' u = Some (updated_row now q r0)"
        "\<forall>r. ?T' u = Some r \<longrightarrow> r0 = r" by auto
  have "fold (upsert_lbeacon now) qs T u = upsert_lbeacon now q ?T' u"
    using assms(1) fold_upsert_other_uuid[OF assms(3)] by simp
  moreover have "\<forall>r. T u = Some r \<longrightarrow> lb_registered_timestamp r0 = lb_registered_timestamp r"
  proof (intro allI impI)
    fix r assume "T u = Some r"
    from fold_upsert_registered[of T u r now pre] this r0(2)
    show "lb_registered_timestamp r0 = lb_registered_timestamp r" by auto
  qed
  ultimately show ?thesis using r0(1) by auto
qed

lemma dom_upsert: "dom (upsert_lbeacon now q T) = insert (statement_uuid q) (dom T)"
  by (cases q) (auto split: option.splits)

lemma dom_fold_upsert:
  "dom (fold (upsert_lbeacon now) qs T) = dom T \<union> statement_uuid ` set qs"
  by (induction qs arbitrary: T) (auto simp: dom_upsert)

text \<open>Sending the same statements a second time, later, moves only the report times.\<close>

lemma fold_upsert_twice:
  assumes "T1 = fold (upsert_lbeacon now1) qs T0"
    and "T2 = fold (upsert_lbeacon now2) qs T1"
  shows "dom T2 = dom T1"
    and "u \<notin> statement_uuid ` set qs \<Longrightarrow> T2 u = T1 u"
    and "u \<in> statement_uuid ` set qs \<Longrightarrow>
         \<exists>r1. T1 u = Some r1 \<and> lb_last_report_timestamp r1 = now1 \<and>
              T2 u = Some (r1\<lparr>lb_last_report_timestamp := now2\<rparr>)"
proof -
  show "dom T2 = dom T1" using assms by (auto simp: dom_fold_upsert)
next
  assume "u \<notin> statement_uuid ` set qs"
  then have "\<forall>q\<in>set qs. statement_uuid q \<noteq> u" by auto
  from fold_upsert_other_uuid[OF this] show "T2 u = T1 u" using assms(2) by simp
next
  assume "u \<in> statement_uuid ` set qs"
  then have "\<exists>q\<in>set qs. statement_uuid q = u" by auto
  from split_list_last_prop[OF this] obtain pre q post where
    s: "qs = pre @ q # post" "statement_uuid q = u" "\<forall>z\<in>set post. statement_uuid z \<noteq> u"
    by blast
  from fold_upsert_last[OF s, of now1 T0] obtain r0 where
    r0: "T1 u = Some (updated_row now1 q r0)" using assms(1) by auto
  from fold_upsert_last[OF s, of now2 T1] obtain r0' where
    r0': "T2 u = Some (updated_row now2 q r0')"
      "lb_registered_timestamp r0' = lb_registered_timestamp (updated_row now1 q r0)"
    using assms(2) r0 by auto
  have "updated_row now2 q r0' = (updated_row now1 q r0)\<lparr>lb_last_report_timestamp := now2\<rparr>"
    using updated_row_again[of r0' r0 now2 q now1] r0'(2) by (simp add: updated_row_registered)
  with r0 r0'(1) show "\<exists>r1. T1 u = Some r1 \<and> lb_last_report_timestamp r1 = now1 \<and>
              T2 u = Some (r1\<lparr>lb_last_report_timestamp := now2\<rparr>)"
    by (simp add: updated_row_last_report)
qed

text \<open>
  A registration that returns \<open>WORK_SUCCESSFULLY\<close> has sent the statement of every beacon
  of the message, in their order, and all were accepted.
\<close>

lemma register_lbeacons_table:
  "register_lbeacons L (lbeacon_server accepts now) c gw (length bs)
     (beacon_tokens bs @ rest) T = Some (WORK_SUCCESSFULLY, T') \<Longrightarrow>
   T' = fold (upsert_lbeacon now) (map (registration_statement gw) bs) T"
proof (induction bs arbitrary: T)
  case Nil
  then show ?case by simp
next
  case (Cons b bs)
  obtain u t i where b: "b = (u, t, i)" by (cases b)
  let ?q = "registration_statement gw b"
  have toks: "beacon_tokens (b # bs) @ rest = Some u # Some t # Some i # (beacon_tokens bs @ rest)"
    using b by (simp add: beacon_tokens_def)
  from Cons.prems have ok: "\<not> (L \<le> length u \<or> L \<le> INDEX_OF_COORDINATE_Y_IN_UUID)"
    unfolding toks by (auto split: if_splits)
  have acc: "accepts ?q T"
  proof (rule ccontr)
    assume "\<not> accepts ?q T"
    then have "SQL_execute (lbeacon_server accepts now) c ?q T = (E_SQL_EXECUTE, T)"
      by (simp add: SQL_execute_def lbeacon_server_def command_result_def)
    with Cons.prems ok show False
      unfolding toks by (simp add: registration_statement_def b)
  qed
  then have ex: "SQL_execute (lbeacon_server accepts now) c ?q T
                  = (WORK_SUCCESSFULLY, upsert_lbeacon now ?q T)"
    by (simp add: SQL_execute_def lbeacon_server_def command_result_def)
  with Cons.prems ok have
    "register_lbeacons L (lbeacon_server accepts now) c gw (length bs)
       (beacon_tokens bs @ rest) (upsert_lbeacon now ?q T) = Some (WORK_SUCCESSFULLY, T')"
    unfolding toks by (simp add: registration_statement_def b)
  from Cons.IH[OF this] show ?case by simp
qed

lemma registration_table:
  assumes "SQL_update_lbeacon_registration_status retries L (lbeacon_server accepts now)
             (Some numbers_str # not_used # beacon_tokens bs @ rest) gw (pool, T)
           = Some (WORK_SUCCESSFULLY, pool', T')"
    and "atoi numbers_str = int (length bs)"
  shows "T' = fold (upsert_lbeacon now) (map (registration_statement gw) bs) T"
proof -
  from assms obtain c where
    "register_lbeacons L (lbeacon_server accepts now) c gw (length bs)
       (beacon_tokens bs @ rest) T = Some (WORK_SUCCESSFULLY, T')"
    by (auto simp: SQL_update_lbeacon_registration_status_def Let_def
          split: prod.splits option.splits if_splits sum.splits)
  from register_lbeacons_table[OF this] show ?thesis .
qed

text \<open>
  Two registrations of the same message that both return \<open>WORK_SUCCESSFULLY\<close>, on
  servers that may reject statements: the rows of the message's uuids differ in
  \<open>last_report_timestamp\<close> only.
\<close>

lemma registration_twice:
  assumes "SQL_update_lbeacon_registration_status retries LENGTH_OF_UUID
             (lbeacon_server accepts1 now1)
             (Some numbers_str # not_used # beacon_tokens beacons @ rest) gateway_ip_address
             (pool, table) = Some (WORK_SUCCESSFULLY, pool1, table1)"
    and "SQL_update_lbeacon_registration_status retries LENGTH_OF_UUID
             (lbeacon_server accepts2 now2)
             (Some numbers_str # not_used # beacon_tokens beacons @ rest) gateway_ip_address
             (pool1, table1) = Some (WORK_SUCCESSFULLY, pool2, table2)"
    and "atoi numbers_str = int (length beacons)"
    and "now1 < now2"
    and "(uuid, ts, ip) \<in> set beacons"
  shows "\<exists>row1 row2.
           table1 uuid = Some row1 \<and> table2 uuid = Some row2 \<and>
           lb_last_report_timestamp row1 = now1 \<and> lb_last_report_timestamp row2 = now2 \<and>
           lb_last_report_timestamp row1 < lb_last_report_timestamp row2 \<and>
           lb_ip_address row2 = lb_ip_address row1 \<and>
           lb_health_status row2 = lb_health_status row1 \<and>
           lb_gateway_ip_address row2 = lb_gateway_ip_address row1 \<and>
           lb_coordinate_x row2 = lb_coordinate_x row1 \<and>
           lb_coordinate_y row2 = lb_coordinate_y row1 \<and>
           lb_registered_timestamp row2 = lb_registered_timestamp row1 \<and>
           dom table2 = dom table1 \<and>
           (\<forall>other. other \<notin> fst ` set beacons \<longrightarrow> table2 other = table1 other)"
proof -
  let ?qs = "map (registration_statement gateway_ip_address) beacons"
  have T1: "table1 = fold (upsert_lbeacon now1) ?qs table"
    using registration_table[OF assms(1) assms(3)] .
  have T2: "table2 = fold (upsert_lbeacon now2) ?qs table1"
    using registration_table[OF assms(2) assms(3)] .
  have uuids: "statement_uuid ` set ?qs = fst ` set beacons"
    by (force simp: registration_statement_def image_iff split: prod.splits)
  have "uuid \<in> statement_uuid ` set ?qs" using assms(5) uuids by force
  from fold_upsert_twice(3)[OF T1 T2 this] obtain r1 where
    r1: "table1 uuid = Some r1" "lb_last_report_timestamp r1 = now1"
        "table2 uuid = Some (r1\<lparr>lb_last_report_timestamp := now2\<rparr>)" by blast
  have d: "dom table2 = dom table1" using fold_upsert_twice(1)[OF T1 T2] .
  have o: "\<forall>other. other \<notin> fst ` set beacons \<longrightarrow> table2 other = table1 other"
    using fold_upsert_twice(2)[OF T1 T2] uuids by simp
  show ?thesis
    using r1 d o assms(4)
    by (intro exI[of _ r1] exI[of _ "r1\<lparr>lb_last_report_timestamp := now2\<rparr>"]) simp
qed

text \<open>
  On a server that accepts every statement the registration loop sends the statement of
  every beacon whose uuid fits \<open>str_uuid\<close> and returns \<open>WORK_SUCCESSFULLY\<close>.
\<close>

lemma register_lbeacons_accepted:
  assumes "\<forall>b\<in>set bs. length (fst b) < L" and "INDEX_OF_COORDINATE_Y_IN_UUID < L"
  shows "register_lbeacons L (lbeacon_server (\<lambda>q t. True) now) c gw (length bs)
           (beacon_tokens bs @ rest) T
         = Some (WORK_SUCCESSFULLY,
                 fold (upsert_lbeacon now) (map (registration_statement gw) bs) T)"
  using assms(1)
proof (induction bs arbitrary: T)
  case Nil
  then show ?case by simp
next
  case (Cons b bs)
  obtain u t i where b: "b = (u, t, i)" by (cases b)
  let ?q = "registration_statement gw b"
  have toks: "beacon_tokens (b # bs) @ rest = Some u # Some t # Some i # (beacon_tokens bs @ rest)"
    using b by (simp add: beacon_tokens_def)
  have fits: "\<not> (L \<le> length u \<or> L \<le> INDEX_OF_COORDINATE_Y_IN_UUID)"
    using Cons.prems b assms(2) by auto
  have ex: "SQL_execute (lbeacon_server (\<lambda>q t. True) now) c ?q T
              = (WORK_SUCCESSFULLY, upsert_lbeacon now ?q T)"
    by (simp add: SQL_execute_def lbeacon_server_def command_result_def)
  have rest: "register_lbeacons L (lbeacon_server (\<lambda>q t. True) now) c gw (length bs)
           (beacon_tokens bs @ rest) (upsert_lbeacon now ?q T)
         = Some (WORK_SUCCESSFULLY,
                 fold (upsert_lbeacon now) (map (registration_statement gw) bs)
                   (upsert_lbeacon now ?q T))"
    using Cons.IH[of "upsert_lbeacon now ?q T"] Cons.prems by simp
  have step: "register_lbeacons L (lbeacon_server (\<lambda>q t. True) now) c gw (length (b # bs))
                (beacon_tokens (b # bs) @ rest) T
              = register_lbeacons L (lbeacon_server (\<lambda>q t. True) now) c gw (length bs)
                  (beacon_tokens bs @ rest) (upsert_lbeacon now ?q T)"
    unfolding toks using fits ex by (simp add: registration_statement_def b)
  show ?case unfolding step rest by simp
qed

text \<open>A pool with a free entry gives a connection, and has a free entry again after its release.\<close>

lemma get_then_release_leaves_free:
  assumes "0 < retries" and "\<exists>n\<in>set pool. is_used n = 0"
  shows "\<exists>c sid pool1.
           SQL_get_database_connection retries pool = (Inr (c, sid), pool1) \<and>
           (\<exists>n\<in>set (snd (SQL_release_database_connection pool1 sid)). is_used n = 0)"
proof -
  from assms(2) have "scan_for_free pool \<noteq> None" by (simp add: scan_for_free_None)
  then obtain r pool1 where s: "scan_for_free pool = Some (r, pool1)" by (cases "scan_for_free pool") auto
  from scan_for_free_Some[OF s] obtain i where i: "i < length pool"
    "r = (db (pool ! i), serial_id (pool ! i))"
    "pool1 = pool[i := (pool ! i)\<lparr>is_used := 1\<rparr>]" by blast
  have g: "SQL_get_database_connection retries pool
             = (Inr (db (pool ! i), serial_id (pool ! i)), pool1)"
    using get_connection_some_free[OF s assms(1)] i(2) by simp
  have "i < length pool1" using i(1,3) by simp
  then have "pool1 ! i \<in> set pool1" by (rule nth_mem)
  moreover have "serial_id (pool1 ! i) = serial_id (pool ! i)" using i(1,3) by simp
  ultimately have "\<exists>n\<in>set pool1. serial_id n = serial_id (pool ! i)" by blast
  from release_present[OF this] obtain j where j: "j < length pool1"
    "SQL_release_database_connection pool1 (serial_id (pool ! i))
       = (WORK_SUCCESSFULLY, pool1[j := (pool1 ! j)\<lparr>is_used := 0\<rparr>])" by blast
  let ?p = "pool1[j := (pool1 ! j)\<lparr>is_used := 0\<rparr>]"
  have "j < length ?p" using j(1) by simp
  then have "?p ! j \<in> set ?p" by (rule nth_mem)
  moreover have "is_used (?p ! j) = 0" using j(1) by simp
  ultimately have "\<exists>n\<in>set (snd (SQL_release_database_connection pool1 (serial_id (pool ! i)))).
                     is_used n = 0"
    using j(2) by (metis snd_conv)
  with g show ?thesis by blast
qed

text \<open>
  A registration message of at least one beacon, each with a uuid that fits \<open>str_uuid\<close>,
  applied with a free connection on a server that accepts every statement: the call
  returns \<open>WORK_SUCCESSFULLY\<close>, has sent every statement, and leaves a free connection.
\<close>

lemma registration_runs:
  assumes "0 < retries" and "\<exists>n\<in>set pool. is_used n = 0"
    and "atoi numbers_str = int (length beacons)" and "beacons \<noteq> []"
    and "\<forall>b\<in>set beacons. length (fst b) < L" and "INDEX_OF_COORDINATE_Y_IN_UUID < L"
  shows "\<exists>pool'.
           SQL_update_lbeacon_registration_status retries L (lbeacon_server (\<lambda>q t. True) now)
             (Some numbers_str # not_used # beacon_tokens beacons @ rest) gw (pool, T)
           = Some (WORK_SUCCESSFULLY, pool',
                   fold (upsert_lbeacon now) (map (registration_statement gw) beacons) T) \<and>
           (\<exists>n\<in>set pool'. is_used n = 0)"
proof -
  from get_then_release_leaves_free[OF assms(1,2)] obtain c sid pool1 where
    g: "SQL_get_database_connection retries pool = (Inr (c, sid), pool1)"
    and f: "\<exists>n\<in>set (snd (SQL_release_database_connection pool1 sid)). is_used n = 0"
    by blast
  have pos: "\<not> atoi numbers_str \<le> 0" using assms(3,4) by simp
  have n: "nat (atoi numbers_str) = length beacons" using assms(3) by simp
  have "SQL_update_lbeacon_registration_status retries L (lbeacon_server (\<lambda>q t. True) now)
             (Some numbers_str # not_used # beacon_tokens beacons @ rest) gw (pool, T)
           = Some (WORK_SUCCESSFULLY, snd (SQL_release_database_connection pool1 sid),
                   fold (upsert_lbeacon now) (map (registration_statement gw) beacons) T)"
    using g pos n register_lbeacons_accepted[OF assms(5,6), of now c gw rest T]
    by (simp add: SQL_update_lbeacon_registration_status_def)
  with f show ?thesis by blast
qed

text \<open>
  C6. A registration message (count, gateway address, then uuid, registration time and
  address of at least one beacon, every uuid fitting \<open>str_uuid\<close>) is applied twice, each
  time with a free connection in the pool and a server that accepts the statements, the
  second time later than the first. Both calls return \<open>WORK_SUCCESSFULLY\<close>. For every uuid
  of the message \<open>lbeacon_table\<close> holds a row after the first call and a row after the
  second; the second differs from the first in \<open>last_report_timestamp\<close> only, which has
  advanced from the time of the first call to the time of the second; and the second call
  adds no row and changes no row of another uuid. The table is keyed by uuid, so the row
  of a uuid is the only one.
\<close>

theorem lbeacon_registration_idempotent:
  assumes "0 < retries" and "\<exists>n\<in>set pool. is_used n = 0"
    and "atoi numbers_str = int (length beacons)" and "beacons \<noteq> []"
    and "\<forall>b\<in>set beacons. length (fst b) < LENGTH_OF_UUID"
    and "INDEX_OF_COORDINATE_Y_IN_UUID < LENGTH_OF_UUID"
    and "now1 < now2"
    and "(uuid, ts, ip) \<in> set beacons"
  shows "\<exists>pool1 table1 pool2 table2 row1 row2.
           SQL_update_lbeacon_registration_status retries LENGTH_OF_UUID
             (lbeacon_server (\<lambda>q t. True) now1)
             (Some numbers_str # not_used # beacon_tokens beacons @ rest) gateway_ip_address
             (pool, table) = Some (WORK_SUCCESSFULLY, pool1, table1) \<and>
           SQL_update_lbeacon_registration_status retries LENGTH_OF_UUID
             (lbeacon_server (\<lambda>q t. True) now2)
             (Some numbers_str # not_used # beacon_tokens beacons @ rest) gateway_ip_address
             (pool1, table1) = Some (WORK_SUCCESSFULLY, pool2, table2) \<and>
           table1 uuid = Some row1 \<and> table2 uuid = Some row2 \<and>
           lb_last_report_timestamp row1 = now1 \<and> lb_last_report_timestamp row2 = now2 \<and>
           lb_last_report_timestamp row1 < lb_last_report_timestamp row2 \<and>
           lb_ip_address row2 = lb_ip_address row1 \<and>
           lb_health_status row2 = lb_health_status row1 \<and>
           lb_gateway_ip_address row2 = lb_gateway_ip_address row1 \<and>
           lb_coordinate_x row2 = lb_coordinate_x row1 \<and>
           lb_coordinate_y row2 = lb_coordinate_y row1 \<and>
           lb_registered_timestamp row2 = lb_registered_timestamp row1 \<and>
           dom table2 = dom table1 \<and>
           (\<forall>other. other \<notin> fst ` set beacons \<longrightarrow> table2 other = table1 other)"
proof -
  from registration_runs[OF assms(1,2,3,4,5,6), of now1 not_used rest gateway_ip_address table]
  obtain pool1 table1 where
    run1: "SQL_update_lbeacon_registration_status retries LENGTH_OF_UUID
             (lbeacon_server (\<lambda>q t. True) now1)
             (Some numbers_str # not_used # beacon_tokens beacons @ rest) gateway_ip_address
             (pool, table) = Some (WORK_SUCCESSFULLY, pool1, table1)"
    and free1: "\<exists>n\<in>set pool1. is_used n = 0"
    by blast
  from registration_runs[OF assms(1) free1 assms(3,4,5,6),
         of now2 not_used rest gateway_ip_address table1]
  obtain pool2 table2 where
    run2: "SQL_update_lbeacon_registration_status retries LENGTH_OF_UUID
             (lbeacon_server (\<lambda>q t. True) now2)
             (Some numbers_str # not_used # beacon_tokens beacons @ rest) gateway_ip_address
             (pool1, table1) = Some (WORK_SUCCESSFULLY, pool2, table2)"
    by blast
  from registration_twice[OF run1 run2 assms(3,7,8)] obtain row1 row2 where
    "table1 uuid = Some row1 \<and> table2 uuid = Some row2 \<and>
           lb_last_report_timestamp row1 = now1 \<and> lb_last_report_timestamp row2 = now2 \<and>
           lb_last_report_timestamp row1 < lb_last_report_timestamp row2 \<and>
           lb_ip_address row2 = lb_ip_address row1 \<and>
           lb_health_status row2 = lb_health_status row1 \<and>
           lb_gateway_ip_address row2 = lb_gateway_ip_address row1 \<and>
           lb_coordinate_x row2 = lb_coordinate_x row1 \<and>
           lb_coordinate_y row2 = lb_coordinate_y row1 \<and>
           lb_registered_timestamp row2 = lb_registered_timestamp row1 \<and>
           dom table2 = dom table1 \<and>
           (\<forall>other. other \<notin> fst ` set beacons \<longrightarrow> table2 other = table1 other)"
    by blast
  with run1 run2 show ?thesis by blast
qed

lemma registration_first_run:
  "SQL_update_lbeacon_registration_status 3 41 (lbeacon_server (\<lambda>q t. True) now)
     (Some ''1'' # Some ''192.168.1.10''
        # beacon_tokens [(''0000000000010000123400000000567800000000'', ''1570000000'',
                          ''192.168.1.20'')] @ [])
     ''192.168.1.10'' ([\<lparr>serial_id = 0, is_used = 0, db = 100\<rparr>], Map.empty)
   = Some (WORK_SUCCESSFULLY, [\<lparr>serial_id = 0, is_used = 0, db = 100\<rparr>],
           [''0000000000010000123400000000567800000000'' \<mapsto>
              \<lparr>lb_ip_address = ''192.168.1.20'', lb_health_status = 0,
               lb_gateway_ip_address = ''192.168.1.10'',
               lb_registered_timestamp = ''1570000000'', lb_last_report_timestamp = now,
               lb_coordinate_x = 1234, lb_coordinate_y = 5678\<rparr>])"
  by (simp add: SQL_update_lbeacon_registration_status_def beacon_tokens_def atoi_1
        atoi_00001234 atoi_00005678 strncpy_from_def INDEX_OF_COORDINATE_X_IN_UUID_def
        INDEX_OF_COORDINATE_Y_IN_UUID_def LENGTH_OF_COORDINATE_IN_UUID_def S_NORMAL_STATUS_def
        SQL_execute_def lbeacon_server_def command_result_def numeral_3_eq_3)

lemma registration_second_run:
  "SQL_update_lbeacon_registration_status 3 41 (lbeacon_server (\<lambda>q t. True) now2)
     (Some ''1'' # Some ''192.168.1.10''
        # beacon_tokens [(''0000000000010000123400000000567800000000'', ''1570000000'',
                          ''192.168.1.20'')] @ [])
     ''192.168.1.10''
     ([\<lparr>serial_id = 0, is_used = 0, db = 100\<rparr>],
      [''0000000000010000123400000000567800000000'' \<mapsto>
              \<lparr>lb_ip_address = ''192.168.1.20'', lb_health_status = 0,
               lb_gateway_ip_address = ''192.168.1.10'',
               lb_registered_timestamp = ''1570000000'', lb_last_report_timestamp = now1,
               lb_coordinate_x = 1234, lb_coordinate_y = 5678\<rparr>])
   = Some (WORK_SUCCESSFULLY, [\<lparr>serial_id = 0, is_used = 0, db = 100\<rparr>],
           [''0000000000010000123400000000567800000000'' \<mapsto>
              \<lparr>lb_ip_address = ''192.168.1.20'', lb_health_status = 0,
               lb_gateway_ip_address = ''192.168.1.10'',
               lb_registered_timestamp = ''1570000000'', lb_last_report_timestamp = now2,
               lb_coordinate_x = 1234, lb_coordinate_y = 5678\<rparr>])"
  by (simp add: SQL_update_lbeacon_registration_status_def beacon_tokens_def atoi_1
        atoi_00001234 atoi_00005678 strncpy_from_def INDEX_OF_COORDINATE_X_IN_UUID_def
        INDEX_OF_COORDINATE_Y_IN_UUID_def LENGTH_OF_COORDINATE_IN_UUID_def S_NORMAL_STATUS_def
        SQL_execute_def lbeacon_server_def command_result_def numeral_3_eq_3)

text \<open>
  The message of one beacon with the uuid of the spec's coordinate scenario, applied at
  1570000100 and at 1570000200 seconds (in microseconds) to an empty table.
\<close>

theorem lbeacon_registration_idempotent_witness:
  "SQL_update_lbeacon_registration_status 3 41 (lbeacon_server (\<lambda>q t. True) 1570000100000000)
     (Some ''1'' # Some ''192.168.1.10''
        # beacon_tokens [(''0000000000010000123400000000567800000000'', ''1570000000'',
                          ''192.168.1.20'')] @ [])
     ''192.168.1.10'' ([\<lparr>serial_id = 0, is_used = 0, db = 100\<rparr>], Map.empty)
   = Some (WORK_SUCCESSFULLY, [\<lparr>serial_id = 0, is_used = 0, db = 100\<rparr>],
           [''0000000000010000123400000000567800000000'' \<mapsto>
              \<lparr>lb_ip_address = ''192.168.1.20'', lb_health_status = 0,
               lb_gateway_ip_address = ''192.168.1.10'',
               lb_registered_timestamp = ''1570000000'',
               lb_last_report_timestamp = 1570000100000000,
               lb_coordinate_x = 1234, lb_coordinate_y = 5678\<rparr>]) \<and>
   SQL_update_lbeacon_registration_status 3 41 (lbeacon_server (\<lambda>q t. True) 1570000200000000)
     (Some ''1'' # Some ''192.168.1.10''
        # beacon_tokens [(''0000000000010000123400000000567800000000'', ''1570000000'',
                          ''192.168.1.20'')] @ [])
     ''192.168.1.10''
     ([\<lparr>serial_id = 0, is_used = 0, db = 100\<rparr>],
      [''0000000000010000123400000000567800000000'' \<mapsto>
              \<lparr>lb_ip_address = ''192.168.1.20'', lb_health_status = 0,
               lb_gateway_ip_address = ''192.168.1.10'',
               lb_registered_timestamp = ''1570000000'',
               lb_last_report_timestamp = 1570000100000000,
               lb_coordinate_x = 1234, lb_coordinate_y = 5678\<rparr>])
   = Some (WORK_SUCCESSFULLY, [\<lparr>serial_id = 0, is_used = 0, db = 100\<rparr>],
           [''0000000000010000123400000000567800000000'' \<mapsto>
              \<lparr>lb_ip_address = ''192.168.1.20'', lb_health_status = 0,
               lb_gateway_ip_address = ''192.168.1.10'',
               lb_registered_timestamp = ''1570000000'',
               lb_last_report_timestamp = 1570000200000000,
               lb_coordinate_x = 1234, lb_coordinate_y = 5678\<rparr>]) \<and>
   (\<exists>pool1 table1 pool2 table2 row1 row2.
      SQL_update_lbeacon_registration_status 3 41
        (lbeacon_server (\<lambda>q t. True) 1570000100000000)
        (Some ''1'' # Some ''192.168.1.10''
           # beacon_tokens [(''0000000000010000123400000000567800000000'', ''1570000000'',
                             ''192.168.1.20'')] @ [])
        ''192.168.1.10'' ([\<lparr>serial_id = 0, is_used = 0, db = 100\<rparr>], Map.empty)
      = Some (WORK_SUCCESSFULLY, pool1, table1) \<and>
      SQL_update_lbeacon_registration_status 3 41
        (lbeacon_server (\<lambda>q t. True) 1570000200000000)
        (Some ''1'' # Some ''192.168.1.10''
           # beacon_tokens [(''0000000000010000123400000000567800000000'', ''1570000000'',
                             ''192.168.1.20'')] @ [])
        ''192.168.1.10'' (pool1, table1)
      = Some (WORK_SUCCESSFULLY, pool2, table2) \<and>
      table1 ''0000000000010000123400000000567800000000'' = Some row1 \<and>
      table2 ''0000000000010000123400000000567800000000'' = Some row2 \<and>
      lb_last_report_timestamp row1 = 1570000100000000 \<and>
      lb_last_report_timestamp row2 = 1570000200000000 \<and>
      lb_ip_address row2 = lb_ip_address row1 \<and>
      lb_health_status row2 = lb_health_status row1 \<and>
      lb_gateway_ip_address row2 = lb_gateway_ip_address row1 \<and>
      lb_coordinate_x row2 = lb_coordinate_x row1 \<and>
      lb_coordinate_y row2 = lb_coordinate_y row1 \<and>
      dom table2 = dom table1)"
proof -
  let ?bs = "[(''0000000000010000123400000000567800000000'', ''1570000000'', ''192.168.1.20'')]"
  have r: "(0::nat) < 3" by simp
  have f: "\<exists>n\<in>set [\<lparr>serial_id = 0, is_used = 0, db = 100\<rparr>]. is_used n = 0" by simp
  have n: "atoi ''1'' = int (length ?bs)" by (simp add: atoi_1)
  have ne: "?bs \<noteq> []" by simp
  have l: "\<forall>b\<in>set ?bs. length (fst b) < 41" by simp
  have y: "INDEX_OF_COORDINATE_Y_IN_UUID < 41" by (simp add: INDEX_OF_COORDINATE_Y_IN_UUID_def)
  have t: "(1570000100000000::int) < 1570000200000000" by simp
  have m: "(''0000000000010000123400000000567800000000'', ''1570000000'', ''192.168.1.20'')
           \<in> set ?bs" by simp
  from lbeacon_registration_idempotent[OF r f n ne l y t m,
         of "Some ''192.168.1.10''" "[]" "''192.168.1.10''" Map.empty]
  have "\<exists>pool1 table1 pool2 table2 row1 row2.
      SQL_update_lbeacon_registration_status 3 41
        (lbeacon_server (\<lambda>q t. True) 1570000100000000)
        (Some ''1'' # Some ''192.168.1.10'' # beacon_tokens ?bs @ [])
        ''192.168.1.10'' ([\<lparr>serial_id = 0, is_used = 0, db = 100\<rparr>], Map.empty)
      = Some (WORK_SUCCESSFULLY, pool1, table1) \<and>
      SQL_update_lbeacon_registration_status 3 41
        (lbeacon_server (\<lambda>q t. True) 1570000200000000)
        (Some ''1'' # Some ''192.168.1.10'' # beacon_tokens ?bs @ [])
        ''192.168.1.10'' (pool1, table1)
      = Some (WORK_SUCCESSFULLY, pool2, table2) \<and>
      table1 ''0000000000010000123400000000567800000000'' = Some row1 \<and>
      table2 ''0000000000010000123400000000567800000000'' = Some row2 \<and>
      lb_last_report_timestamp row1 = 1570000100000000 \<and>
      lb_last_report_timestamp row2 = 1570000200000000 \<and>
      lb_ip_address row2 = lb_ip_address row1 \<and>
      lb_health_status row2 = lb_health_status row1 \<and>
      lb_gateway_ip_address row2 = lb_gateway_ip_address row1 \<and>
      lb_coordinate_x row2 = lb_coordinate_x row1 \<and>
      lb_coordinate_y row2 = lb_coordinate_y row1 \<and>
      dom table2 = dom table1"
    by blast
  then show ?thesis
    using registration_first_run[of 1570000100000000]
      registration_second_run[of 1570000200000000 1570000100000000]
    by blast
qed

subsection \<open>Violation events\<close>

lemma new_notifications_rows:
  "r \<in> set (new_notifications seq monitor_type column ss) \<Longrightarrow>
   \<exists>s\<in>set ss. n_monitor_type r = Some monitor_type \<and> n_mac_address r = os_mac_address s \<and>
      n_uuid r = os_uuid s \<and> n_violation_timestamp r = column_value column s \<and>
      n_processed r = 0"
  by (induction ss arbitrary: seq) auto

lemma new_notifications_distinct_mac:
  "distinct (map os_mac_address ss) \<Longrightarrow>
   sorted_wrt (\<lambda>a b. n_mac_address a \<noteq> n_mac_address b)
     (new_notifications seq monitor_type column ss)"
proof (induction ss arbitrary: seq)
  case Nil
  then show ?case by simp
next
  case (Cons s ss)
  have "\<forall>b\<in>set (new_notifications (seq + 1) monitor_type column ss).
          os_mac_address s \<noteq> n_mac_address b"
  proof
    fix b assume "b \<in> set (new_notifications (seq + 1) monitor_type column ss)"
    from new_notifications_rows[OF this] obtain s' where
      "s' \<in> set ss" "n_mac_address b = os_mac_address s'" by blast
    with Cons.prems show "os_mac_address s \<noteq> n_mac_address b" by force
  qed
  with Cons show ?case by simp
qed

lemma violation_selected_row:
  assumes "violation_selected now column time_interval monitor_type column granularity
             notifications s"
  shows "\<exists>t. column_value column s = Some t \<and> now - time_interval * 1000000 \<le> t \<and>
           (\<forall>n\<in>set notifications. \<forall>v.
               n_monitor_type n = Some monitor_type \<and> n_mac_address n \<noteq> None \<and>
               n_uuid n \<noteq> None \<and> n_violation_timestamp n = Some v
               \<longrightarrow> granularity * 1000000 \<le> t - v)"
proof -
  from assms obtain t where t: "column_value column s = Some t"
    "now - time_interval * 1000000 \<le> t"
    by (auto simp: violation_selected_def split: option.splits)
  from assms have none: "\<forall>n\<in>set notifications.
      \<not> recent_notification monitor_type column granularity s n"
    by (simp add: violation_selected_def list_ex_iff)
  have "\<forall>n\<in>set notifications. \<forall>v.
               n_monitor_type n = Some monitor_type \<and> n_mac_address n \<noteq> None \<and>
               n_uuid n \<noteq> None \<and> n_violation_timestamp n = Some v
               \<longrightarrow> granularity * 1000000 \<le> t - v"
  proof (intro ballI allI impI)
    fix n v
    assume n: "n \<in> set notifications"
      and h: "n_monitor_type n = Some monitor_type \<and> n_mac_address n \<noteq> None \<and>
              n_uuid n \<noteq> None \<and> n_violation_timestamp n = Some v"
    from none n have "\<not> recent_notification monitor_type column granularity s n" by simp
    with h t(1) show "granularity * 1000000 \<le> t - v"
      by (auto simp: recent_notification_def sql_eq_def)
  qed
  with t show ?thesis by blast
qed

text \<open>What the call leaves of the database: nothing new, or the rows of the one insert.\<close>

lemma collect_violation_events_db:
  "snd (snd (SQL_collect_violation_events retries (violation_server accepts now) monitor_type
               time_interval granularity (pool, d))) = d
   \<or> (\<exists>column. violation_timestamp_name monitor_type = Some column \<and>
         snd (snd (SQL_collect_violation_events retries (violation_server accepts now)
                     monitor_type time_interval granularity (pool, d)))
         = insert_notifications now
             (Insert_notifications monitor_type column column time_interval monitor_type
                column granularity) d)"
  by (auto simp: SQL_collect_violation_events_def SQL_execute_def violation_server_def
        command_result_def Let_def split: option.splits prod.splits sum.splits)

lemma collect_violation_events_inserted:
  "\<exists>inserted.
     notification_table (snd (snd (SQL_collect_violation_events retries
        (violation_server accepts now) monitor_type time_interval granularity (pool, d))))
       = notification_table d @ inserted \<and>
     (inserted = [] \<or>
      (\<exists>column seq. violation_timestamp_name monitor_type = Some column \<and>
         inserted = new_notifications seq monitor_type column
           (filter (violation_selected now column time_interval monitor_type column granularity
                      (notification_table d)) (object_summary_table d))))"
  using collect_violation_events_db[of retries accepts now monitor_type time_interval
          granularity pool d]
  by (auto simp: Let_def)

text \<open>
  The condition of the sub-query is coarser than the key of the dedup window: a recent
  notification of another object, with the same monitor type, keeps a violation out.
\<close>

lemma violation_suppressed_by_other_object:
  "notification_table (insert_notifications 1045000000
      (Insert_notifications MONITOR_GEO_FENCE geofence_violation_timestamp
         geofence_violation_timestamp 60 MONITOR_GEO_FENCE geofence_violation_timestamp 30)
      \<lparr>object_summary_table =
         [\<lparr>os_mac_address = Some ''c2:00:00:00:00:02'', os_uuid = Some ''U2'',
           os_geofence_violation_timestamp = Some 1010000000,
           os_panic_violation_timestamp = None, os_movement_violation_timestamp = None,
           os_location_violation_timestamp = None\<rparr>],
       notification_table =
         [\<lparr>n_id = 1, n_monitor_type = Some MONITOR_GEO_FENCE,
           n_mac_address = Some ''c1:00:00:00:00:01'', n_uuid = Some ''U1'',
           n_violation_timestamp = Some 1000000000, n_processed = 0\<rparr>],
       notification_id_seq = 1\<rparr>)
   = [\<lparr>n_id = 1, n_monitor_type = Some MONITOR_GEO_FENCE,
       n_mac_address = Some ''c1:00:00:00:00:01'', n_uuid = Some ''U1'',
       n_violation_timestamp = Some 1000000000, n_processed = 0\<rparr>]"
  by (simp add: violation_selected_def recent_notification_def sql_eq_def)

text \<open>
  C1, as the code has it. Whatever the call returns, every row it adds to
  \<open>notification_table\<close> has the monitor type of the call and the mac address, uuid and
  violation time of a row of \<open>object_summary_table\<close> whose violation time of that type
  is within the last \<open>time_interval_in_sec\<close> seconds, and no notification that had the
  same monitor type, the same mac address and the same uuid before the call, neither of
  them \<open>NULL\<close>, has a violation time less than the dedup window before the new one; when
  the violation time is not in the future, none has a violation time within the last
  \<open>granularity_for_continuous_violations_in_sec\<close> seconds. Hence: if no two
  notifications of the same monitor type, mac address and uuid lay within the dedup
  window of each other before the call, and \<open>object_summary_table\<close> has one row for a mac
  address and no \<open>NULL\<close> mac address or uuid, then the same holds after the call.
\<close>

theorem violation_events_deduplicated:
  "(case SQL_collect_violation_events retries (violation_server accepts now) monitor_type
           time_interval_in_sec granularity (pool, d) of
      (e, pool', d') \<Rightarrow>
        (\<exists>inserted.
           notification_table d' = notification_table d @ inserted \<and>
           (\<forall>r\<in>set inserted. \<exists>s\<in>set (object_summary_table d). \<exists>column t.
               violation_timestamp_name monitor_type = Some column \<and>
               column_value column s = Some t \<and>
               n_monitor_type r = Some monitor_type \<and>
               n_mac_address r = os_mac_address s \<and> n_uuid r = os_uuid s \<and>
               n_violation_timestamp r = Some t \<and> n_processed r = 0 \<and>
               now - time_interval_in_sec * 1000000 \<le> t \<and>
               (\<forall>n\<in>set (notification_table d). \<forall>v.
                   n_monitor_type n = n_monitor_type r \<and>
                   n_mac_address n = n_mac_address r \<and> n_mac_address n \<noteq> None \<and>
                   n_uuid n = n_uuid r \<and> n_uuid n \<noteq> None \<and>
                   n_violation_timestamp n = Some v
                   \<longrightarrow> granularity * 1000000 \<le> t - v \<and>
                       (t \<le> now \<longrightarrow> granularity * 1000000 \<le> now - v)))) \<and>
        (sorted_wrt (\<lambda>a b. \<not> within_dedup_window granularity a b) (notification_table d) \<and>
         distinct (map os_mac_address (object_summary_table d)) \<and>
         (\<forall>s\<in>set (object_summary_table d). os_mac_address s \<noteq> None \<and> os_uuid s \<noteq> None)
         \<longrightarrow> sorted_wrt (\<lambda>a b. \<not> within_dedup_window granularity a b)
               (notification_table d')))"
proof -
  obtain e pool' d' where run:
    "SQL_collect_violation_events retries (violation_server accepts now) monitor_type
       time_interval_in_sec granularity (pool, d) = (e, pool', d')"
    by (cases "SQL_collect_violation_events retries (violation_server accepts now) monitor_type
                 time_interval_in_sec granularity (pool, d)") auto
  from collect_violation_events_inserted[of retries accepts now monitor_type
         time_interval_in_sec granularity pool d] run
  obtain inserted where ins: "notification_table d' = notification_table d @ inserted"
    and shape: "inserted = [] \<or>
      (\<exists>column seq. violation_timestamp_name monitor_type = Some column \<and>
         inserted = new_notifications seq monitor_type column
           (filter (violation_selected now column time_interval_in_sec monitor_type column
                      granularity (notification_table d)) (object_summary_table d)))"
    by auto
  let ?old = "notification_table d"
  have rows: "\<forall>r\<in>set inserted. \<exists>s\<in>set (object_summary_table d). \<exists>column t.
               violation_timestamp_name monitor_type = Some column \<and>
               column_value column s = Some t \<and>
               n_monitor_type r = Some monitor_type \<and>
               n_mac_address r = os_mac_address s \<and> n_uuid r = os_uuid s \<and>
               n_violation_timestamp r = Some t \<and> n_processed r = 0 \<and>
               now - time_interval_in_sec * 1000000 \<le> t \<and>
               (\<forall>n\<in>set ?old. \<forall>v.
                   n_monitor_type n = n_monitor_type r \<and>
                   n_mac_address n = n_mac_address r \<and> n_mac_address n \<noteq> None \<and>
                   n_uuid n = n_uuid r \<and> n_uuid n \<noteq> None \<and>
                   n_violation_timestamp n = Some v
                   \<longrightarrow> granularity * 1000000 \<le> t - v \<and>
                       (t \<le> now \<longrightarrow> granularity * 1000000 \<le> now - v))"
  proof
    fix r assume r: "r \<in> set inserted"
    with shape obtain column seq where
      col: "violation_timestamp_name monitor_type = Some column"
      and insd: "inserted = new_notifications seq monitor_type column
           (filter (violation_selected now column time_interval_in_sec monitor_type column
                      granularity ?old) (object_summary_table d))"
      by auto
    from new_notifications_rows[OF r[unfolded insd]] obtain s where
      s: "s \<in> set (object_summary_table d)"
         "violation_selected now column time_interval_in_sec monitor_type column granularity
            ?old s"
      and rs: "n_monitor_type r = Some monitor_type" "n_mac_address r = os_mac_address s"
         "n_uuid r = os_uuid s" "n_violation_timestamp r = column_value column s"
         "n_processed r = 0"
      by auto
    from violation_selected_row[OF s(2)] obtain t where
      t: "column_value column s = Some t" "now - time_interval_in_sec * 1000000 \<le> t"
         "\<forall>n\<in>set ?old. \<forall>v.
               n_monitor_type n = Some monitor_type \<and> n_mac_address n \<noteq> None \<and>
               n_uuid n \<noteq> None \<and> n_violation_timestamp n = Some v
               \<longrightarrow> granularity * 1000000 \<le> t - v"
      by blast
    have far: "\<forall>n\<in>set ?old. \<forall>v.
                   n_monitor_type n = n_monitor_type r \<and>
                   n_mac_address n = n_mac_address r \<and> n_mac_address n \<noteq> None \<and>
                   n_uuid n = n_uuid r \<and> n_uuid n \<noteq> None \<and>
                   n_violation_timestamp n = Some v
                   \<longrightarrow> granularity * 1000000 \<le> t - v \<and>
                       (t \<le> now \<longrightarrow> granularity * 1000000 \<le> now - v)"
    proof (intro ballI allI impI)
      fix n v
      assume n: "n \<in> set ?old"
        and h: "n_monitor_type n = n_monitor_type r \<and>
                   n_mac_address n = n_mac_address r \<and> n_mac_address n \<noteq> None \<and>
                   n_uuid n = n_uuid r \<and> n_uuid n \<noteq> None \<and>
                   n_violation_timestamp n = Some v"
      from t(3) n h rs(1) have "granularity * 1000000 \<le> t - v" by auto
      then show "granularity * 1000000 \<le> t - v \<and>
                 (t \<le> now \<longrightarrow> granularity * 1000000 \<le> now - v)" by auto
    qed
    show "\<exists>s\<in>set (object_summary_table d). \<exists>column t.
               violation_timestamp_name monitor_type = Some column \<and>
               column_value column s = Some t \<and>
               n_monitor_type r = Some monitor_type \<and>
               n_mac_address r = os_mac_address s \<and> n_uuid r = os_uuid s \<and>
               n_violation_timestamp r = Some t \<and> n_processed r = 0 \<and>
               now - time_interval_in_sec * 1000000 \<le> t \<and>
               (\<forall>n\<in>set ?old. \<forall>v.
                   n_monitor_type n = n_monitor_type r \<and>
                   n_mac_address n = n_mac_address r \<and> n_mac_address n \<noteq> None \<and>
                   n_uuid n = n_uuid r \<and> n_uuid n \<noteq> None \<and>
                   n_violation_timestamp n = Some v
                   \<longrightarrow> granularity * 1000000 \<le> t - v \<and>
                       (t \<le> now \<longrightarrow> granularity * 1000000 \<le> now - v))"
      using s(1) col t(1,2) rs far by (intro bexI[of _ s] exI[of _ column] exI[of _ t]) simp_all
  qed
  have inv: "sorted_wrt (\<lambda>a b. \<not> within_dedup_window granularity a b) (?old @ inserted)"
    if pre: "sorted_wrt (\<lambda>a b. \<not> within_dedup_window granularity a b) ?old"
      and dist: "distinct (map os_mac_address (object_summary_table d))"
      and nonnull: "\<forall>s\<in>set (object_summary_table d).
                      os_mac_address s \<noteq> None \<and> os_uuid s \<noteq> None"
  proof -
    have new: "sorted_wrt (\<lambda>a b. \<not> within_dedup_window granularity a b) inserted"
    proof (cases "inserted = []")
      case True
      then show ?thesis by simp
    next
      case False
      with shape obtain column seq where
        insd: "inserted = new_notifications seq monitor_type column
           (filter (violation_selected now column time_interval_in_sec monitor_type column
                      granularity ?old) (object_summary_table d))"
        by auto
      have "distinct (map os_mac_address
              (filter (violation_selected now column time_interval_in_sec monitor_type column
                         granularity ?old) (object_summary_table d)))"
        using dist by (rule distinct_map_filter)
      from new_notifications_distinct_mac[OF this, of seq monitor_type column]
      have "sorted_wrt (\<lambda>a b. n_mac_address a \<noteq> n_mac_address b) inserted"
        unfolding insd .
      then show ?thesis
        by (rule sorted_wrt_mono_rel[rotated]) (simp add: within_dedup_window_def)
    qed
    have cross: "\<forall>a\<in>set ?old. \<forall>b\<in>set inserted. \<not> within_dedup_window granularity a b"
    proof (intro ballI notI)
      fix a b
      assume a: "a \<in> set ?old" and b: "b \<in> set inserted"
        and w: "within_dedup_window granularity a b"
      from rows b obtain s t where
        s: "s \<in> set (object_summary_table d)"
        and bs: "n_monitor_type b = Some monitor_type" "n_mac_address b = os_mac_address s"
          "n_uuid b = os_uuid s" "n_violation_timestamp b = Some t"
        and far: "\<forall>n\<in>set ?old. \<forall>v.
                   n_monitor_type n = n_monitor_type b \<and>
                   n_mac_address n = n_mac_address b \<and> n_mac_address n \<noteq> None \<and>
                   n_uuid n = n_uuid b \<and> n_uuid n \<noteq> None \<and>
                   n_violation_timestamp n = Some v
                   \<longrightarrow> granularity * 1000000 \<le> t - v \<and>
                       (t \<le> now \<longrightarrow> granularity * 1000000 \<le> now - v)"
        by blast
      from w obtain x where
        same: "n_monitor_type a = n_monitor_type b" "n_mac_address a = n_mac_address b"
          "n_uuid a = n_uuid b"
        and x: "n_violation_timestamp a = Some x" and close: "\<bar>x - t\<bar> < granularity * 1000000"
        using bs(4) by (auto simp: within_dedup_window_def split: option.splits)
      from nonnull s bs(2,3) same have "n_mac_address a \<noteq> None" "n_uuid a \<noteq> None" by auto
      with far a same x have "granularity * 1000000 \<le> t - x" by blast
      with close show False by simp
    qed
    from pre new cross show ?thesis by (simp add: sorted_wrt_append)
  qed
  show ?thesis
    unfolding run using ins rows inv by auto
qed

lemma collect_violation_events_example:
  "SQL_collect_violation_events 3 (violation_server (\<lambda>q d. True) 1045000000)
     MONITOR_GEO_FENCE 60 30
     ([\<lparr>serial_id = 0, is_used = 0, db = 100\<rparr>],
      \<lparr>object_summary_table =
         [\<lparr>os_mac_address = Some ''c1:00:00:00:00:01'', os_uuid = Some ''U1'',
           os_geofence_violation_timestamp = Some 1010000000,
           os_panic_violation_timestamp = None, os_movement_violation_timestamp = None,
           os_location_violation_timestamp = None\<rparr>,
          \<lparr>os_mac_address = Some ''c2:00:00:00:00:02'', os_uuid = Some ''U2'',
           os_geofence_violation_timestamp = Some 1040000000,
           os_panic_violation_timestamp = None, os_movement_violation_timestamp = None,
           os_location_violation_timestamp = None\<rparr>],
       notification_table =
         [\<lparr>n_id = 1, n_monitor_type = Some MONITOR_GEO_FENCE,
           n_mac_address = Some ''c1:00:00:00:00:01'', n_uuid = Some ''U1'',
           n_violation_timestamp = Some 1000000000, n_processed = 0\<rparr>],
       notification_id_seq = 1\<rparr>)
   = (WORK_SUCCESSFULLY, [\<lparr>serial_id = 0, is_used = 0, db = 100\<rparr>],
      \<lparr>object_summary_table =
         [\<lparr>os_mac_address = Some ''c1:00:00:00:00:01'', os_uuid = Some ''U1'',
           os_geofence_violation_timestamp = Some 1010000000,
           os_panic_violation_timestamp = None, os_movement_violation_timestamp = None,
           os_location_violation_timestamp = None\<rparr>,
          \<lparr>os_mac_address = Some ''c2:00:00:00:00:02'', os_uuid = Some ''U2'',
           os_geofence_violation_timestamp = Some 1040000000,
           os_panic_violation_timestamp = None, os_movement_violation_timestamp = None,
           os_location_violation_timestamp = None\<rparr>],
       notification_table =
         [\<lparr>n_id = 1, n_monitor_type = Some MONITOR_GEO_FENCE,
           n_mac_address = Some ''c1:00:00:00:00:01'', n_uuid = Some ''U1'',
           n_violation_timestamp = Some 1000000000, n_processed = 0\<rparr>,
          \<lparr>n_id = 2, n_monitor_type = Some MONITOR_GEO_FENCE,
           n_mac_address = Some ''c2:00:00:00:00:02'', n_uuid = Some ''U2'',
           n_violation_timestamp = Some 1040000000, n_processed = 0\<rparr>],
       notification_id_seq = 2\<rparr>)"
  by (simp add: SQL_collect_violation_events_def violation_timestamp_name_def
        SQL_execute_def violation_server_def command_result_def violation_selected_def
        recent_notification_def sql_eq_def numeral_3_eq_3)

theorem violation_events_deduplicated_witness:
  "sorted_wrt (\<lambda>a b. \<not> within_dedup_window 30 a b)
     [\<lparr>n_id = 1, n_monitor_type = Some MONITOR_GEO_FENCE,
       n_mac_address = Some ''c1:00:00:00:00:01'', n_uuid = Some ''U1'',
       n_violation_timestamp = Some 1000000000, n_processed = 0\<rparr>] \<and>
   distinct (map os_mac_address
     [\<lparr>os_mac_address = Some ''c1:00:00:00:00:01'', os_uuid = Some ''U1'',
       os_geofence_violation_timestamp = Some 1010000000,
       os_panic_violation_timestamp = None, os_movement_violation_timestamp = None,
       os_location_violation_timestamp = None\<rparr>,
      \<lparr>os_mac_address = Some ''c2:00:00:00:00:02'', os_uuid = Some ''U2'',
       os_geofence_violation_timestamp = Some 1040000000,
       os_panic_violation_timestamp = None, os_movement_violation_timestamp = None,
       os_location_violation_timestamp = None\<rparr>]) \<and>
   sorted_wrt (\<lambda>a b. \<not> within_dedup_window 30 a b)
     [\<lparr>n_id = 1, n_monitor_type = Some MONITOR_GEO_FENCE,
       n_mac_address = Some ''c1:00:00:00:00:01'', n_uuid = Some ''U1'',
       n_violation_timestamp = Some 1000000000, n_processed = 0\<rparr>,
      \<lparr>n_id = 2, n_monitor_type = Some MONITOR_GEO_FENCE,
       n_mac_address = Some ''c2:00:00:00:00:02'', n_uuid = Some ''U2'',
       n_violation_timestamp = Some 1040000000, n_processed = 0\<rparr>]"
proof -
  let ?summary =
    "[\<lparr>os_mac_address = Some ''c1:00:00:00:00:01'', os_uuid = Some ''U1'',
       os_geofence_violation_timestamp = Some 1010000000,
       os_panic_violation_timestamp = None, os_movement_violation_timestamp = None,
       os_location_violation_timestamp = None\<rparr>,
      \<lparr>os_mac_address = Some ''c2:00:00:00:00:02'', os_uuid = Some ''U2'',
       os_geofence_violation_timestamp = Some 1040000000,
       os_panic_violation_timestamp = None, os_movement_violation_timestamp = None,
       os_location_violation_timestamp = None\<rparr>]"
  let ?old =
    "[\<lparr>n_id = 1, n_monitor_type = Some MONITOR_GEO_FENCE,
       n_mac_address = Some ''c1:00:00:00:00:01'', n_uuid = Some ''U1'',
       n_violation_timestamp = Some 1000000000, n_processed = 0\<rparr>]"
  let ?d = "\<lparr>object_summary_table = ?summary, notification_table = ?old,
             notification_id_seq = 1\<rparr>"
  have h1: "sorted_wrt (\<lambda>a b. \<not> within_dedup_window 30 a b) (notification_table ?d)"
    by simp
  have h2: "distinct (map os_mac_address (object_summary_table ?d))" by simp
  have h3: "\<forall>s\<in>set (object_summary_table ?d). os_mac_address s \<noteq> None \<and> os_uuid s \<noteq> None"
    by simp
  note t = violation_events_deduplicated[where retries = 3 and accepts = "\<lambda>q d. True"
             and now = 1045000000 and monitor_type = MONITOR_GEO_FENCE
             and time_interval_in_sec = 60 and granularity = 30
             and pool = "[\<lparr>serial_id = 0, is_used = 0, db = 100\<rparr>]" and d = ?d,
             unfolded collect_violation_events_example prod.case]
  from t[THEN conjunct2] h1 h2 h3 have
    "sorted_wrt (\<lambda>a b. \<not> within_dedup_window 30 a b)
       (notification_table
          \<lparr>object_summary_table = ?summary,
           notification_table = ?old @
             [\<lparr>n_id = 2, n_monitor_type = Some MONITOR_GEO_FENCE,
               n_mac_address = Some ''c2:00:00:00:00:02'', n_uuid = Some ''U2'',
               n_violation_timestamp = Some 1040000000, n_processed = 0\<rparr>],
           notification_id_seq = 2\<rparr>)"
    by simp
  then show ?thesis using h1 h2 by simp
qed

text \<open>
  C1, as the claim has it, fails where the uuid of a summary row is \<open>NULL\<close>, which the
  comparison \<open>uuid = uuid\<close> of the sub-query never matches. An object with a panic stamp
  and no uuid yet: the first call inserts its notification, and the second call, five
  seconds later with a window of 30, inserts it again, although the first notification
  has the same monitor type, mac address and uuid and the same violation time. The two
  rows lie within the dedup window of each other.
\<close>

theorem violation_with_null_uuid_inserted_twice:
  "SQL_collect_violation_events 3 (violation_server (\<lambda>q d. True) 1005000000)
     MONITOR_PANIC 60 30
     ([\<lparr>serial_id = 0, is_used = 0, db = 100\<rparr>],
      \<lparr>object_summary_table =
         [\<lparr>os_mac_address = Some ''c1:00:00:00:00:01'', os_uuid = None,
           os_geofence_violation_timestamp = None,
           os_panic_violation_timestamp = Some 1000000000,
           os_movement_violation_timestamp = None,
           os_location_violation_timestamp = None\<rparr>],
       notification_table = [],
       notification_id_seq = 0\<rparr>)
   = (WORK_SUCCESSFULLY, [\<lparr>serial_id = 0, is_used = 0, db = 100\<rparr>],
      \<lparr>object_summary_table =
         [\<lparr>os_mac_address = Some ''c1:00:00:00:00:01'', os_uuid = None,
           os_geofence_violation_timestamp = None,
           os_panic_violation_timestamp = Some 1000000000,
           os_movement_violation_timestamp = None,
           os_location_violation_timestamp = None\<rparr>],
       notification_table =
         [\<lparr>n_id = 1, n_monitor_type = Some 2,
           n_mac_address = Some ''c1:00:00:00:00:01'', n_uuid = None,
           n_violation_timestamp = Some 1000000000, n_processed = 0\<rparr>],
       notification_id_seq = 1\<rparr>) \<and>
   SQL_collect_violation_events 3 (violation_server (\<lambda>q d. True) 1010000000)
     MONITOR_PANIC 60 30
     ([\<lparr>serial_id = 0, is_used = 0, db = 100\<rparr>],
      \<lparr>object_summary_table =
         [\<lparr>os_mac_address = Some ''c1:00:00:00:00:01'', os_uuid = None,
           os_geofence_violation_timestamp = None,
           os_panic_violation_timestamp = Some 1000000000,
           os_movement_violation_timestamp = None,
           os_location_violation_timestamp = None\<rparr>],
       notification_table =
         [\<lparr>n_id = 1, n_monitor_type = Some 2,
           n_mac_address = Some ''c1:00:00:00:00:01'', n_uuid = None,
           n_violation_timestamp = Some 1000000000, n_processed = 0\<rparr>],
       notification_id_seq = 1\<rparr>)
   = (WORK_SUCCESSFULLY, [\<lparr>serial_id = 0, is_used = 0, db = 100\<rparr>],
      \<lparr>object_summary_table =
         [\<lparr>os_mac_address = Some ''c1:00:00:00:00:01'', os_uuid = None,
           os_geofence_violation_timestamp = None,
           os_panic_violation_timestamp = Some 1000000000,
           os_movement_violation_timestamp = None,
           os_location_violation_timestamp = None\<rparr>],
       notification_table =
         [\<lparr>n_id = 1, n_monitor_type = Some 2,
           n_mac_address = Some ''c1:00:00:00:00:01'', n_uuid = None,
           n_violation_timestamp = Some 1000000000, n_processed = 0\<rparr>,
          \<lparr>n_id = 2, n_monitor_type = Some 2,
           n_mac_address = Some ''c1:00:00:00:00:01'', n_uuid = None,
           n_violation_timestamp = Some 1000000000, n_processed = 0\<rparr>],
       notification_id_seq = 2\<rparr>) \<and>
   within_dedup_window 30
     \<lparr>n_id = 1, n_monitor_type = Some 2,
      n_mac_address = Some ''c1:00:00:00:00:01'', n_uuid = None,
      n_violation_timestamp = Some 1000000000, n_processed = 0\<rparr>
     \<lparr>n_id = 2, n_monitor_type = Some 2,
      n_mac_address = Some ''c1:00:00:00:00:01'', n_uuid = None,
      n_violation_timestamp = Some 1000000000, n_processed = 0\<rparr>"
  by (simp add: SQL_collect_violation_events_def violation_timestamp_name_def
        MONITOR_GEO_FENCE_def MONITOR_PANIC_def
        SQL_execute_def violation_server_def command_result_def violation_selected_def
        recent_notification_def sql_eq_def within_dedup_window_def numeral_3_eq_3)

subsection \<open>Draining the notifications\<close>

lemma string_of_nat_digits: "\<forall>c\<in>set (string_of_nat n). isdigit c"
proof (induction n rule: string_of_nat.induct)
  case (1 n)
  show ?case
  proof (cases "n < 10")
    case True
    then show ?thesis by (subst string_of_nat.simps) (simp add: isdigit_def)
  next
    case False
    have "n mod 10 < 10" by simp
    then have "isdigit (char_of (48 + n mod 10))" by (simp add: isdigit_def)
    with False 1 show ?thesis by (subst string_of_nat.simps) simp
  qed
qed

lemma string_of_nat_not_Nil: "string_of_nat n \<noteq> []"
  by (subst string_of_nat.simps) simp

lemma leading_digits_append:
  "\<forall>c\<in>set s. isdigit c \<Longrightarrow>
   leading_digits_value acc (s @ t) = leading_digits_value (leading_digits_value acc s) t"
  by (induction s arbitrary: acc) simp_all

lemma leading_digits_string_of_nat: "leading_digits_value 0 (string_of_nat n) = n"
proof (induction n rule: string_of_nat.induct)
  case (1 n)
  show ?case
  proof (cases "n < 10")
    case True
    then show ?thesis
      by (subst string_of_nat.simps) (simp add: isdigit_def digit_value_def)
  next
    case False
    have d: "n mod 10 \<le> 9" by presburger
    have "leading_digits_value 0 (string_of_nat (n div 10) @ [char_of (48 + n mod 10)])
          = leading_digits_value (n div 10) [char_of (48 + n mod 10)]"
      using leading_digits_append[OF string_of_nat_digits, of 0 "n div 10"] 1 False by simp
    also have "\<dots> = 10 * (n div 10) + n mod 10"
      using d by (simp add: isdigit_def digit_value_def)
    also have "\<dots> = n" by simp
    finally show ?thesis using False by (subst string_of_nat.simps) simp
  qed
qed

text \<open>\<open>atoi\<close> reads back what \<open>%d\<close> has written.\<close>

lemma atoi_string_of_int: "atoi (string_of_int i) = i"
proof (cases "i < 0")
  case True
  have "\<not> isspace CHR ''-''" by (simp add: isspace_def)
  then show ?thesis
    using True by (simp add: atoi_def string_of_int_def leading_digits_string_of_nat)
next
  case False
  obtain c cs where s: "string_of_nat (nat i) = c # cs"
    using string_of_nat_not_Nil[of "nat i"] by (cases "string_of_nat (nat i)") auto
  have c: "isdigit c" using string_of_nat_digits[of "nat i"] s by simp
  have "dropWhile isspace (c # cs) = c # cs" using isdigit_not_space[OF c] by simp
  moreover have "leading_digits_value 0 (c # cs) = nat i"
    using leading_digits_string_of_nat[of "nat i"] s by simp
  ultimately show ?thesis
    using False s isdigit_not_sign[OF c]
    by (simp add: atoi_def string_of_int_def del: leading_digits_value.simps)
qed

lemma one_record_of_tuple:
  "one_record_of (notification_tuple out n) = Some (notification_line out n)"
  by (simp add: one_record_of_def notification_tuple_def notification_line_def PQgetvalue_def
        FIELD_INDEX_OF_ID_def FIELD_INDEX_OF_MONITOR_TYPE_def FIELD_INDEX_OF_MAC_ADDRESS_def
        FIELD_INDEX_OF_UUID_def FIELD_INDEX_OF_VIOLATION_TIMESTAMP_def)

lemma id_of_tuple:
  "PQgetvalue (notification_tuple out n) FIELD_INDEX_OF_ID = Some (string_of_int (n_id n))"
  by (simp add: notification_tuple_def PQgetvalue_def FIELD_INDEX_OF_ID_def)

lemma execute_mark_processed:
  "SQL_execute (notification_server (\<lambda>q t. True) out) c (Mark_processed i) T
   = (WORK_SUCCESSFULLY, mark_processed i T)"
  by (simp add: SQL_execute_def command_result_def)

lemma mark_processed_then_set:
  "map (\<lambda>n. if n_id n \<in> S then n\<lparr>n_processed := 1\<rparr> else n) (mark_processed i T)
   = map (\<lambda>n. if n_id n \<in> insert i S then n\<lparr>n_processed := 1\<rparr> else n) T"
  by (simp add: mark_processed_def)

lemma drain_rows_step_fits:
  assumes "buf_len > length buf + length (notification_line out r)"
    and "representable_int (n_id r)"
  shows "drain_rows (notification_server (\<lambda>q t. True) out) c buf_len
           (map (notification_tuple out) (r # rs)) (T, buf)
         = drain_rows (notification_server (\<lambda>q t. True) out) c buf_len
             (map (notification_tuple out) rs)
             (mark_processed (n_id r) T, buf @ notification_line out r)"
  using assms
  by (simp add: one_record_of_tuple id_of_tuple execute_mark_processed atoi_string_of_int)

lemma drain_rows_step_skips:
  assumes "\<not> buf_len > length buf + length (notification_line out r)"
  shows "drain_rows (notification_server (\<lambda>q t. True) out) c buf_len
           (map (notification_tuple out) (r # rs)) (T, buf)
         = drain_rows (notification_server (\<lambda>q t. True) out) c buf_len
             (map (notification_tuple out) rs) (T, buf)"
  using assms by (simp add: one_record_of_tuple)

lemma filter_member_Cons:
  "r \<notin> set xs \<Longrightarrow> filter (\<lambda>n. n \<in> set (r # A)) xs = filter (\<lambda>n. n \<in> set A) xs"
  by (induction xs) auto

text \<open>
  The loop on the rows of a result, on a server that accepts every statement: the rows
  appended are those that fit when the loop comes to them, and they are the rows marked.
\<close>

lemma drain_rows_spec:
  assumes "distinct rs" and "\<forall>r\<in>set rs. representable_int (n_id r)"
  shows "\<exists>appended.
     drain_rows (notification_server (\<lambda>q t. True) out) c buf_len
       (map (notification_tuple out) rs) (T, buf)
     = Some (WORK_SUCCESSFULLY,
             map (\<lambda>n. if n_id n \<in> n_id ` set appended then n\<lparr>n_processed := 1\<rparr> else n) T,
             buf @ concat (map (notification_line out) appended)) \<and>
     appended = filter (\<lambda>n. n \<in> set appended) rs \<and>
     (\<forall>pre n post. rs = pre @ n # post \<longrightarrow>
        (n \<in> set appended \<longleftrightarrow>
         buf_len > length buf
           + length (concat (map (notification_line out)
                               (filter (\<lambda>m. m \<in> set appended) pre)))
           + length (notification_line out n)))"
  using assms
proof (induction rs arbitrary: T buf)
  case Nil
  show ?case by (intro exI[of _ "[]"]) simp
next
  case (Cons r rs)
  let ?line = "notification_line out"
  let ?S = "notification_server (\<lambda>q t. True) out"
  from Cons.prems have r: "r \<notin> set rs" and d: "distinct rs"
    and ri: "representable_int (n_id r)"
    and rest_int: "\<forall>r\<in>set rs. representable_int (n_id r)" by auto
  show ?case
  proof (cases "buf_len > length buf + length (?line r)")
    case True
    from Cons.IH[OF d rest_int, of "mark_processed (n_id r) T" "buf @ ?line r"] obtain A where
      run: "drain_rows ?S c buf_len (map (notification_tuple out) rs)
              (mark_processed (n_id r) T, buf @ ?line r)
            = Some (WORK_SUCCESSFULLY,
                    map (\<lambda>n. if n_id n \<in> n_id ` set A then n\<lparr>n_processed := 1\<rparr> else n)
                      (mark_processed (n_id r) T),
                    (buf @ ?line r) @ concat (map ?line A))"
      and sub: "A = filter (\<lambda>n. n \<in> set A) rs"
      and fit: "\<forall>pre n post. rs = pre @ n # post \<longrightarrow>
        (n \<in> set A \<longleftrightarrow>
         buf_len > length (buf @ ?line r)
           + length (concat (map ?line (filter (\<lambda>m. m \<in> set A) pre)))
           + length (?line n))"
      by blast
    have 1: "drain_rows ?S c buf_len (map (notification_tuple out) (r # rs)) (T, buf)
       = Some (WORK_SUCCESSFULLY,
               map (\<lambda>n. if n_id n \<in> n_id ` set (r # A) then n\<lparr>n_processed := 1\<rparr> else n) T,
               buf @ concat (map ?line (r # A)))"
      using drain_rows_step_fits[OF True ri, of c rs T] run
      by (simp add: mark_processed_then_set)
    have 2: "r # A = filter (\<lambda>n. n \<in> set (r # A)) (r # rs)"
      using sub filter_member_Cons[OF r, of A] by simp
    have 3: "\<forall>pre n post. r # rs = pre @ n # post \<longrightarrow>
        (n \<in> set (r # A) \<longleftrightarrow>
         buf_len > length buf
           + length (concat (map ?line (filter (\<lambda>m. m \<in> set (r # A)) pre)))
           + length (?line n))"
    proof (intro allI impI)
      fix pre n post
      assume split: "r # rs = pre @ n # post"
      show "n \<in> set (r # A) \<longleftrightarrow>
         buf_len > length buf
           + length (concat (map ?line (filter (\<lambda>m. m \<in> set (r # A)) pre)))
           + length (?line n)"
      proof (cases pre)
        case Nil
        with split have "n = r" by simp
        with Nil True show ?thesis by simp
      next
        case (Cons p pre')
        with split have p: "p = r" and rest: "rs = pre' @ n # post" by auto
        from rest r have nr: "n \<noteq> r" and pre'r: "r \<notin> set pre'" by auto
        have "filter (\<lambda>m. m \<in> set (r # A)) pre = r # filter (\<lambda>m. m \<in> set A) pre'"
          using Cons p filter_member_Cons[OF pre'r, of A] by simp
        then have "length (concat (map ?line (filter (\<lambda>m. m \<in> set (r # A)) pre)))
            = length (?line r) + length (concat (map ?line (filter (\<lambda>m. m \<in> set A) pre')))"
          by simp
        moreover have "n \<in> set (r # A) \<longleftrightarrow> n \<in> set A" using nr by simp
        moreover have "n \<in> set A \<longleftrightarrow>
           buf_len > length (buf @ ?line r)
             + length (concat (map ?line (filter (\<lambda>m. m \<in> set A) pre')))
             + length (?line n)"
          using fit rest by blast
        ultimately show ?thesis by (simp add: add.assoc)
      qed
    qed
    from 1 2 3 show ?thesis by blast
  next
    case False
    from Cons.IH[OF d rest_int, of T buf] obtain A where
      run: "drain_rows ?S c buf_len (map (notification_tuple out) rs) (T, buf)
            = Some (WORK_SUCCESSFULLY,
                    map (\<lambda>n. if n_id n \<in> n_id ` set A then n\<lparr>n_processed := 1\<rparr> else n) T,
                    buf @ concat (map ?line A))"
      and sub: "A = filter (\<lambda>n. n \<in> set A) rs"
      and fit: "\<forall>pre n post. rs = pre @ n # post \<longrightarrow>
        (n \<in> set A \<longleftrightarrow>
         buf_len > length buf
           + length (concat (map ?line (filter (\<lambda>m. m \<in> set A) pre)))
           + length (?line n))"
      by blast
    have "set A \<subseteq> set rs" using sub by (metis filter_is_subset)
    with r have rA: "r \<notin> set A" by auto
    have 1: "drain_rows ?S c buf_len (map (notification_tuple out) (r # rs)) (T, buf)
       = Some (WORK_SUCCESSFULLY,
               map (\<lambda>n. if n_id n \<in> n_id ` set A then n\<lparr>n_processed := 1\<rparr> else n) T,
               buf @ concat (map ?line A))"
      using drain_rows_step_skips[OF False, of c rs T] run by simp
    have 2: "A = filter (\<lambda>n. n \<in> set A) (r # rs)"
      using sub rA by simp
    have 3: "\<forall>pre n post. r # rs = pre @ n # post \<longrightarrow>
        (n \<in> set A \<longleftrightarrow>
         buf_len > length buf
           + length (concat (map ?line (filter (\<lambda>m. m \<in> set A) pre)))
           + length (?line n))"
    proof (intro allI impI)
      fix pre n post
      assume split: "r # rs = pre @ n # post"
      show "n \<in> set A \<longleftrightarrow>
         buf_len > length buf
           + length (concat (map ?line (filter (\<lambda>m. m \<in> set A) pre)))
           + length (?line n)"
      proof (cases pre)
        case Nil
        with split have "n = r" by simp
        with Nil False rA show ?thesis by simp
      next
        case (Cons p pre')
        with split have p: "p = r" and rest: "rs = pre' @ n # post" by auto
        have "filter (\<lambda>m. m \<in> set A) pre = filter (\<lambda>m. m \<in> set A) pre'"
          using Cons p rA by simp
        moreover have "n \<in> set A \<longleftrightarrow>
           buf_len > length buf
             + length (concat (map ?line (filter (\<lambda>m. m \<in> set A) pre')))
             + length (?line n)"
          using fit rest by blast
        ultimately show ?thesis by simp
      qed
    qed
    from 1 2 3 show ?thesis by blast
  qed
qed

lemma unprocessed_by_id_facts:
  "distinct (map n_id table) \<Longrightarrow> distinct (unprocessed_by_id table)"
  "sorted (map n_id (unprocessed_by_id table))"
  "set (unprocessed_by_id table) = {n \<in> set table. n_processed n \<noteq> 1}"
  by (auto simp: unprocessed_by_id_def distinct_map dest: distinct_filter)

text \<open>
  C3, as the code has it. On a server that accepts every statement, with distinct ids
  that a C \<open>int\<close> holds and a connection to be had, the call returns
  \<open>WORK_SUCCESSFULLY\<close>. The unprocessed rows are
  visited in ascending order of id. A row is appended exactly when its line fits in what
  is left of the buffer when the loop comes to it, that is after the lines of the rows
  appended before it; \<open>processed = 1\<close> is set for exactly the appended rows. A row that
  does not fit is passed over and stays unprocessed, and the loop goes on to the rows
  after it.
\<close>

theorem drain_appends_rows_that_fit:
  assumes "distinct (map n_id table)"
    and "SQL_get_database_connection retries pool = (Inr (db_conn, db_serial_id), pool1)"
    and "\<forall>n\<in>set table. - 2147483648 \<le> n_id n \<and> n_id n \<le> 2147483647"
  shows "\<exists>appended.
     SQL_get_and_update_violation_events retries
       (notification_server (\<lambda>q t. True) timestamp_out) buf buf_len (pool, table)
     = Some (WORK_SUCCESSFULLY, snd (SQL_release_database_connection pool1 db_serial_id),
             map (\<lambda>n. if n_id n \<in> n_id ` set appended then n\<lparr>n_processed := 1\<rparr> else n)
               table,
             buf @ concat (map (notification_line timestamp_out) appended)) \<and>
     sorted (map n_id (unprocessed_by_id table)) \<and>
     set (unprocessed_by_id table) = {n \<in> set table. n_processed n \<noteq> 1} \<and>
     appended = filter (\<lambda>n. n \<in> set appended) (unprocessed_by_id table) \<and>
     (\<forall>pre n post. unprocessed_by_id table = pre @ n # post \<longrightarrow>
        (n \<in> set appended \<longleftrightarrow>
         buf_len > length buf
           + length (concat (map (notification_line timestamp_out)
                               (filter (\<lambda>m. m \<in> set appended) pre)))
           + length (notification_line timestamp_out n)))"
proof -
  let ?rs = "unprocessed_by_id table"
  let ?S = "notification_server (\<lambda>q t. True) timestamp_out"
  have ints: "\<forall>r\<in>set ?rs. representable_int (n_id r)"
    using assms(3) unprocessed_by_id_facts(3)[of table] by (simp add: representable_int_def)
  from drain_rows_spec[OF unprocessed_by_id_facts(1)[OF assms(1)] ints,
         of timestamp_out db_conn buf_len table buf]
  obtain A where
    run: "drain_rows ?S db_conn buf_len (map (notification_tuple timestamp_out) ?rs) (table, buf)
          = Some (WORK_SUCCESSFULLY,
                  map (\<lambda>n. if n_id n \<in> n_id ` set A then n\<lparr>n_processed := 1\<rparr> else n) table,
                  buf @ concat (map (notification_line timestamp_out) A))"
    and sub: "A = filter (\<lambda>n. n \<in> set A) ?rs"
    and fit: "\<forall>pre n post. ?rs = pre @ n # post \<longrightarrow>
        (n \<in> set A \<longleftrightarrow>
         buf_len > length buf
           + length (concat (map (notification_line timestamp_out)
                               (filter (\<lambda>m. m \<in> set A) pre)))
           + length (notification_line timestamp_out n))"
    by blast
  have call: "SQL_get_and_update_violation_events retries ?S buf buf_len (pool, table)
     = Some (WORK_SUCCESSFULLY, snd (SQL_release_database_connection pool1 db_serial_id),
             map (\<lambda>n. if n_id n \<in> n_id ` set A then n\<lparr>n_processed := 1\<rparr> else n) table,
             buf @ concat (map (notification_line timestamp_out) A))"
  proof (cases "?rs = []")
    case True
    with sub have "A = []" by simp
    with True assms(2) show ?thesis
      by (simp add: SQL_get_and_update_violation_events_def PQntuples_def)
  next
    case False
    with assms(2) run show ?thesis
      by (simp add: SQL_get_and_update_violation_events_def PQntuples_def)
  qed
  from call sub fit unprocessed_by_id_facts(2,3)[of table] show ?thesis by blast
qed

lemma string_of_int_1: "string_of_int 1 = ''1''"
  by code_simp

lemma string_of_int_2: "string_of_int 2 = ''2''"
  by code_simp

lemma atoi_2: "atoi ''2'' = 2"
  by code_simp

text \<open>
  C3, as the claim has it, fails. Two unprocessed notifications and an empty buffer of 77
  bytes: the line of row 1 has 77 characters and does not fit, the line of row 2 has 75
  and does. The call passes over row 1, appends row 2 and marks it processed; it does not
  stop at the row that does not fit.
\<close>

theorem drain_goes_on_after_row_that_does_not_fit:
  "SQL_get_and_update_violation_events 3
     (notification_server (\<lambda>q t. True)
        (\<lambda>t. if t = 1570017600500000 then ''2019-10-02 12:00:00.5''
             else ''2019-10-02 12:00:05''))
     [] 77
     ([\<lparr>serial_id = 0, is_used = 0, db = 100\<rparr>],
      [\<lparr>n_id = 1, n_monitor_type = Some 1, n_mac_address = Some ''c1:00:00:00:00:01'',
        n_uuid = Some ''00010018000000006660000000011910'',
        n_violation_timestamp = Some 1570017600500000, n_processed = 0\<rparr>,
       \<lparr>n_id = 2, n_monitor_type = Some 1, n_mac_address = Some ''c1:00:00:00:00:01'',
        n_uuid = Some ''00010018000000006660000000011910'',
        n_violation_timestamp = Some 1570017605000000, n_processed = 0\<rparr>])
   = Some (WORK_SUCCESSFULLY, [\<lparr>serial_id = 0, is_used = 0, db = 100\<rparr>],
      [\<lparr>n_id = 1, n_monitor_type = Some 1, n_mac_address = Some ''c1:00:00:00:00:01'',
        n_uuid = Some ''00010018000000006660000000011910'',
        n_violation_timestamp = Some 1570017600500000, n_processed = 0\<rparr>,
       \<lparr>n_id = 2, n_monitor_type = Some 1, n_mac_address = Some ''c1:00:00:00:00:01'',
        n_uuid = Some ''00010018000000006660000000011910'',
        n_violation_timestamp = Some 1570017605000000, n_processed = 1\<rparr>],
      ''2,1,c1:00:00:00:00:01,00010018000000006660000000011910,2019-10-02 12:00:05;'') \<and>
   length ''1,1,c1:00:00:00:00:01,00010018000000006660000000011910,2019-10-02 12:00:00.5;''
     = 77"
  by (simp add: SQL_get_and_update_violation_events_def PQntuples_def unprocessed_by_id_def
        notification_tuple_def text_of_def one_record_of_def PQgetvalue_def
        NUMBER_FIELDS_OF_SQL_SELECT_TEMPLATE_def FIELD_INDEX_OF_ID_def
        FIELD_INDEX_OF_MONITOR_TYPE_def FIELD_INDEX_OF_MAC_ADDRESS_def FIELD_INDEX_OF_UUID_def
        FIELD_INDEX_OF_VIOLATION_TIMESTAMP_def SQL_execute_def command_result_def
        mark_processed_def string_of_int_1 string_of_int_2 atoi_2 representable_int_def
        numeral_3_eq_3)

theorem drain_appends_rows_that_fit_witness:
  "distinct (map n_id
      [\<lparr>n_id = 1, n_monitor_type = Some 1, n_mac_address = Some ''c1:00:00:00:00:01'',
        n_uuid = Some ''00010018000000006660000000011910'',
        n_violation_timestamp = Some 1570017600500000, n_processed = 0\<rparr>,
       \<lparr>n_id = 2, n_monitor_type = Some 1, n_mac_address = Some ''c1:00:00:00:00:01'',
        n_uuid = Some ''00010018000000006660000000011910'',
        n_violation_timestamp = Some 1570017605000000, n_processed = 0\<rparr>]) \<and>
   SQL_get_database_connection 3 [\<lparr>serial_id = 0, is_used = 0, db = 100\<rparr>]
     = (Inr (100, 0), [\<lparr>serial_id = 0, is_used = 1, db = 100\<rparr>]) \<and>
   (\<exists>appended.
      SQL_get_and_update_violation_events 3
        (notification_server (\<lambda>q t. True)
           (\<lambda>t. if t = 1570017600500000 then ''2019-10-02 12:00:00.5''
                else ''2019-10-02 12:00:05''))
        [] 77
        ([\<lparr>serial_id = 0, is_used = 0, db = 100\<rparr>],
         [\<lparr>n_id = 1, n_monitor_type = Some 1, n_mac_address = Some ''c1:00:00:00:00:01'',
           n_uuid = Some ''00010018000000006660000000011910'',
           n_violation_timestamp = Some 1570017600500000, n_processed = 0\<rparr>,
          \<lparr>n_id = 2, n_monitor_type = Some 1, n_mac_address = Some ''c1:00:00:00:00:01'',
           n_uuid = Some ''00010018000000006660000000011910'',
           n_violation_timestamp = Some 1570017605000000, n_processed = 0\<rparr>])
      = Some (WORK_SUCCESSFULLY,
              snd (SQL_release_database_connection
                     [\<lparr>serial_id = 0, is_used = 1, db = 100\<rparr>] 0),
              map (\<lambda>n. if n_id n \<in> n_id ` set appended then n\<lparr>n_processed := 1\<rparr> else n)
                [\<lparr>n_id = 1, n_monitor_type = Some 1,
                  n_mac_address = Some ''c1:00:00:00:00:01'',
                  n_uuid = Some ''00010018000000006660000000011910'',
                  n_violation_timestamp = Some 1570017600500000, n_processed = 0\<rparr>,
                 \<lparr>n_id = 2, n_monitor_type = Some 1,
                  n_mac_address = Some ''c1:00:00:00:00:01'',
                  n_uuid = Some ''00010018000000006660000000011910'',
                  n_violation_timestamp = Some 1570017605000000, n_processed = 0\<rparr>],
              [] @ concat (map (notification_line
                     (\<lambda>t. if t = 1570017600500000 then ''2019-10-02 12:00:00.5''
                          else ''2019-10-02 12:00:05'')) appended)))"
proof -
  let ?T = "[\<lparr>n_id = 1, n_monitor_type = Some 1, n_mac_address = Some ''c1:00:00:00:00:01'',
        n_uuid = Some ''00010018000000006660000000011910'',
        n_violation_timestamp = Some 1570017600500000, n_processed = 0\<rparr>,
       \<lparr>n_id = 2, n_monitor_type = Some 1, n_mac_address = Some ''c1:00:00:00:00:01'',
        n_uuid = Some ''00010018000000006660000000011910'',
        n_violation_timestamp = Some 1570017605000000, n_processed = 0\<rparr>]"
  have d: "distinct (map n_id ?T)" by simp
  have c: "SQL_get_database_connection 3 [\<lparr>serial_id = 0, is_used = 0, db = 100\<rparr>]
     = (Inr (100, 0), [\<lparr>serial_id = 0, is_used = 1, db = 100\<rparr>])"
    by (simp add: numeral_3_eq_3)
  have i: "\<forall>n\<in>set ?T. - 2147483648 \<le> n_id n \<and> n_id n \<le> 2147483647" by simp
  from drain_appends_rows_that_fit[OF d c i,
         of "\<lambda>t. if t = 1570017600500000 then ''2019-10-02 12:00:00.5''
                 else ''2019-10-02 12:00:05''" "[]" 77]
  show ?thesis using d c by blast
qed


end
